theory Spec2Isabelle
  imports Main "HOL-Library.AList" "HOL-Library.Char_ord" "HOL-Library.List_Lexorder"
    "HOL-Library.Multiset"
begin

section \<open>Go library functions used by the sources\<close>

text \<open>
  The sources call into Go's \<^verbatim>\<open>net/url\<close>, \<^verbatim>\<open>strings\<close> and the \<^verbatim>\<open>ory/x/urlx\<close>
  helper package. These are modelled after the library code: a Go \<^verbatim>\<open>string\<close> is a
  byte sequence, here a \<^typ>\<open>char list\<close> (a \<^typ>\<open>char\<close> is one byte).
\<close>

subsection \<open>Percent-encoding of query components\<close>

text \<open>\<^verbatim>\<open>shouldEscape(c, encodeQueryComponent)\<close>: everything but the unreserved characters
  (letters, digits, \<^verbatim>\<open>- _ . ~\<close>) is escaped.\<close>

definition isAlnum :: "char \<Rightarrow> bool" where
  "isAlnum c = (let n = (of_char c :: nat) in
     (97 \<le> n \<and> n \<le> 122) \<or> (65 \<le> n \<and> n \<le> 90) \<or> (48 \<le> n \<and> n \<le> 57))"

definition shouldEscape :: "char \<Rightarrow> bool" where
  "shouldEscape c =
     (if isAlnum c then False
      else if c = CHR ''-'' \<or> c = CHR ''_'' \<or> c = CHR ''.'' \<or> c = CHR ''~'' then False
      else True)"

text \<open>\<^verbatim>\<open>const upperhex = "0123456789ABCDEF"\<close>, indexed by a nibble.\<close>

definition upperhex :: "nat \<Rightarrow> char" where
  "upperhex n = (if n < 10 then char_of (48 + n) else char_of (55 + n))"

text \<open>\<^verbatim>\<open>ishex\<close> and \<^verbatim>\<open>unhex\<close> accept digits and both cases of \<^verbatim>\<open>a\<close> to \<^verbatim>\<open>f\<close>.\<close>

definition ishex :: "char \<Rightarrow> bool" where
  "ishex c = (let n = (of_char c :: nat) in
     (48 \<le> n \<and> n \<le> 57) \<or> (97 \<le> n \<and> n \<le> 102) \<or> (65 \<le> n \<and> n \<le> 70))"

definition unhex :: "char \<Rightarrow> nat" where
  "unhex c = (let n = (of_char c :: nat) in
     if 48 \<le> n \<and> n \<le> 57 then n - 48
     else if 97 \<le> n \<and> n \<le> 102 then n - 97 + 10
     else if 65 \<le> n \<and> n \<le> 70 then n - 65 + 10
     else 0)"

text \<open>\<^verbatim>\<open>url.QueryEscape\<close>: a space becomes \<^verbatim>\<open>+\<close>, an escaped byte becomes
  \<^verbatim>\<open>%XX\<close>, every other byte is copied.\<close>

fun QueryEscape :: "string \<Rightarrow> string" where
  "QueryEscape [] = []"
| "QueryEscape (c # cs) =
     (if shouldEscape c then
        (if c = CHR '' '' then CHR ''+'' # QueryEscape cs
         else CHR ''%'' # upperhex ((of_char c :: nat) div 16) # upperhex ((of_char c :: nat) mod 16)
                # QueryEscape cs)
      else c # QueryEscape cs)"

text \<open>\<^verbatim>\<open>url.QueryUnescape\<close>: \<^verbatim>\<open>%XX\<close> becomes the byte, \<^verbatim>\<open>+\<close> a space; a
  \<^verbatim>\<open>%\<close> not followed by two hex digits is an \<^verbatim>\<open>EscapeError\<close> (here \<open>None\<close>).\<close>

fun QueryUnescape :: "string \<Rightarrow> string option" where
  "QueryUnescape [] = Some []"
| "QueryUnescape (c # cs) =
     (if c = CHR ''%'' then
        (case cs of
           h1 # h2 # rest \<Rightarrow>
             (if ishex h1 \<and> ishex h2
              then map_option ((#) (char_of (unhex h1 * 16 + unhex h2))) (QueryUnescape rest)
              else None)
         | _ \<Rightarrow> None)
      else if c = CHR ''+'' then map_option ((#) CHR '' '') (QueryUnescape cs)
      else map_option ((#) c) (QueryUnescape cs))"

subsection \<open>\<^verbatim>\<open>url.Values\<close>\<close>

text \<open>
  \<^verbatim>\<open>type Values map[string][]string\<close>. The map is an association list with the first
  entry of a key deciding; it is only observed through lookups and through
  \<^verbatim>\<open>Encode\<close>, which sorts the keys, so the order of the entries plays no role.
\<close>

type_synonym Values = "(string \<times> string list) list"

text \<open>\<^verbatim>\<open>v[key]\<close>: the nil slice for a key that is absent.\<close>

definition Values_lookup :: "Values \<Rightarrow> string \<Rightarrow> string list" where
  "Values_lookup v key = (case map_of v key of None \<Rightarrow> [] | Some vs \<Rightarrow> vs)"

text \<open>\<^verbatim>\<open>func (v Values) Get(key string) string\<close>: the first value, or the empty string.\<close>

definition Values_Get :: "Values \<Rightarrow> string \<Rightarrow> string" where
  "Values_Get v key = (case Values_lookup v key of [] \<Rightarrow> [] | x # _ \<Rightarrow> x)"

text \<open>\<^verbatim>\<open>func (v Values) Set(key, value string) { v[key] = []string{value} }\<close>\<close>

definition Values_Set :: "Values \<Rightarrow> string \<Rightarrow> string \<Rightarrow> Values" where
  "Values_Set v key val = AList.update key [val] v"

text \<open>\<^verbatim>\<open>m[key] = append(m[key], value)\<close>, as \<^verbatim>\<open>parseQuery\<close> and \<^verbatim>\<open>Values.Add\<close> do.\<close>

definition Values_Add :: "Values \<Rightarrow> string \<Rightarrow> string \<Rightarrow> Values" where
  "Values_Add v key val = AList.update key (Values_lookup v key @ [val]) v"

text \<open>\<^verbatim>\<open>strings.Cut(s, sep)\<close> for a one-byte separator: the text before and after the
  first separator, and whether there was one.\<close>

fun Cut :: "char \<Rightarrow> string \<Rightarrow> string \<times> string \<times> bool" where
  "Cut sep [] = ([], [], False)"
| "Cut sep (c # cs) =
     (if c = sep then ([], cs, True)
      else (case Cut sep cs of (before, after, found) \<Rightarrow> (c # before, after, found)))"

lemma Cut_after_length:
  "query \<noteq> [] \<Longrightarrow> Cut sep query = (key, rest, found) \<Longrightarrow> length rest < length query"
proof (induction query arbitrary: key rest found)
  case Nil
  then show ?case by simp
next
  case (Cons c cs)
  show ?case
  proof (cases "c = sep")
    case True
    with Cons.prems show ?thesis by simp
  next
    case False
    obtain b a f where cut: "Cut sep cs = (b, a, f)" by (cases "Cut sep cs")
    with False Cons.prems have rest: "rest = a" by simp
    show ?thesis
    proof (cases "cs = []")
      case True
      with cut rest show ?thesis by simp
    next
      case False
      from Cons.IH [OF False cut] rest show ?thesis by simp
    qed
  qed
qed

text \<open>
  \<^verbatim>\<open>parseQuery(m, query)\<close>: the loop over the \<^verbatim>\<open>&\<close>-separated pairs. A pair with a
  semicolon, an empty pair and a pair whose key or value does not unescape are skipped
  (the error they set is the one \<^verbatim>\<open>URL.Query\<close> throws away).
\<close>

function parseQuery :: "Values \<Rightarrow> string \<Rightarrow> Values" where
  "parseQuery m query =
     (if query = [] then m
      else (case Cut CHR ''&'' query of (key, rest, _) \<Rightarrow>
        if CHR '';'' \<in> set key then parseQuery m rest
        else if key = [] then parseQuery m rest
        else (case Cut CHR ''='' key of (k, val, _) \<Rightarrow>
          (case QueryUnescape k of
             None \<Rightarrow> parseQuery m rest
           | Some k' \<Rightarrow>
              (case QueryUnescape val of
                 None \<Rightarrow> parseQuery m rest
               | Some val' \<Rightarrow> parseQuery (Values_Add m k' val') rest)))))"
  by pat_completeness auto
termination
  by (relation "measure (\<lambda>(m, query). length query)")
    (auto dest: Cut_after_length Cut_after_length [OF _ sym])

declare parseQuery.simps [simp del]

text \<open>\<^verbatim>\<open>url.ParseQuery\<close> starts from an empty map.\<close>

definition ParseQuery :: "string \<Rightarrow> Values" where
  "ParseQuery query = parseQuery [] query"

text \<open>\<^verbatim>\<open>strings.Join\<close>.\<close>

fun Join :: "string list \<Rightarrow> string \<Rightarrow> string" where
  "Join [] sep = []"
| "Join [x] sep = x"
| "Join (x # y # ys) sep = x @ sep @ Join (y # ys) sep"

text \<open>
  \<^verbatim>\<open>func (v Values) Encode() string\<close>: the keys are sorted (Go compares strings
  byte by byte, which is the lexicographic order on \<^typ>\<open>char list\<close>), and every value
  of a key is written as \<^verbatim>\<open>key=value\<close>, both escaped, with \<^verbatim>\<open>&\<close> between the
  pairs. The buffer is non-empty as soon as one pair is written, so the separator is
  written exactly between pairs.
\<close>

definition Values_keys :: "Values \<Rightarrow> string list" where
  "Values_keys v = sort (remdups (map fst v))"

definition Values_Encode :: "Values \<Rightarrow> string" where
  "Values_Encode v =
     Join (concat (map (\<lambda>k. map (\<lambda>x. QueryEscape k @ ''='' @ QueryEscape x) (Values_lookup v k))
                       (Values_keys v))) ''&''"

text \<open>One pair as \<^const>\<open>Values_Encode\<close> writes it, and the pairs of a map in the order
  in which they are written.\<close>

definition pair_segment :: "string \<times> string \<Rightarrow> string" where
  "pair_segment p = QueryEscape (fst p) @ ''='' @ QueryEscape (snd p)"

definition Values_pairs :: "Values \<Rightarrow> (string \<times> string) list" where
  "Values_pairs v = concat (map (\<lambda>k. map (Pair k) (Values_lookup v k)) (Values_keys v))"

subsection \<open>\<^verbatim>\<open>url.URL\<close> and pointers to it\<close>

record URL =
  Scheme :: string
  Opaque :: string
  User :: "(string \<times> string option) option"
  Host :: string
  Path :: string
  RawPath :: string
  OmitHost :: bool
  ForceQuery :: bool
  RawQuery :: string
  Fragment :: string
  RawFragment :: string

text \<open>\<^verbatim>\<open>func (u *URL) Query() Values { v, _ := ParseQuery(u.RawQuery); return v }\<close>\<close>

definition URL_Query :: "URL \<Rightarrow> Values" where
  "URL_Query u = ParseQuery (RawQuery u)"

text \<open>
  A \<^verbatim>\<open>*url.URL\<close> is an address into a store of URL values. The store is a list and an
  address is an index into it; \<^verbatim>\<open>new(url.URL)\<close> extends the store by one cell. An
  address outside the store stands for a nil or dangling pointer, and dereferencing it
  panics.
\<close>

type_synonym url_ptr = nat
type_synonym url_store = "URL list"

text \<open>\<^verbatim>\<open>urlx.Copy\<close>: \<^verbatim>\<open>var out = new(url.URL); *out = *src; return out\<close>.\<close>

definition urlx_Copy :: "url_store \<Rightarrow> url_ptr \<Rightarrow> (url_store \<times> url_ptr) option" where
  "urlx_Copy h src =
     (if src < length h then Some (h @ [h ! src], length h) else None)"

text \<open>\<^verbatim>\<open>urlx.CopyWithQuery\<close>: \<^verbatim>\<open>out := Copy(u); out.RawQuery = query.Encode(); return out\<close>.\<close>

definition urlx_CopyWithQuery :: "url_store \<Rightarrow> url_ptr \<Rightarrow> Values \<Rightarrow> (url_store \<times> url_ptr) option" where
  "urlx_CopyWithQuery h u query =
     (case urlx_Copy h u of
        None \<Rightarrow> None
      | Some (h', out) \<Rightarrow> Some (h'[out := (h' ! out)\<lparr>RawQuery := Values_Encode query\<rparr>], out))"

subsection \<open>\<^verbatim>\<open>uuid.UUID\<close>\<close>

text \<open>A \<^verbatim>\<open>uuid.UUID\<close> is an array of 16 bytes; \<^verbatim>\<open>String\<close> writes it in lower-case
  hexadecimal, in groups of 4, 2, 2, 2 and 6 bytes separated by hyphens.\<close>

type_synonym UUID = "char list"

definition hextable :: "nat \<Rightarrow> char" where
  "hextable n = (if n < 10 then char_of (48 + n) else char_of (87 + n))"

fun hex_Encode :: "string \<Rightarrow> string" where
  "hex_Encode [] = []"
| "hex_Encode (b # bs) =
     hextable ((of_char b :: nat) div 16) # hextable ((of_char b :: nat) mod 16) # hex_Encode bs"

definition UUID_String :: "UUID \<Rightarrow> string" where
  "UUID_String u =
     hex_Encode (take 4 u) @ ''-'' @ hex_Encode (take 2 (drop 4 u)) @ ''-'' @
     hex_Encode (take 2 (drop 6 u)) @ ''-'' @ hex_Encode (take 2 (drop 8 u)) @ ''-'' @
     hex_Encode (drop 10 u)"

section \<open>The continuation model (package \<^verbatim>\<open>flow\<close>)\<close>

text \<open>\<^verbatim>\<open>type ContinueWithAction string\<close> and its two constants.\<close>

type_synonym ContinueWithAction = string

definition ContinueWithActionSetOrySessionToken :: ContinueWithAction where
  "ContinueWithActionSetOrySessionToken = ''set_ory_session_token''"

definition ContinueWithActionVerificationUI :: ContinueWithAction where
  "ContinueWithActionVerificationUI = ''verification_ui''"

record ContinueWithSetToken =
  cwst_Action :: ContinueWithAction
  OrySessionToken :: string

record ContinueWithVerificationUIFlow =
  cwvf_ID :: UUID
  VerifiableAddress :: string

record ContinueWithVerificationUI =
  cwv_Action :: ContinueWithAction
  cwv_Flow :: ContinueWithVerificationUIFlow

text \<open>
  \<^verbatim>\<open>func (ContinueWithSetToken) AppendTo(url.Values) url.Values { return nil }\<close>.
  A \<^verbatim>\<open>url.Values\<close> is a reference to a map, so the model returns the map the caller
  passed as it is after the call, next to the returned value; the nil map is the empty
  one.
\<close>

definition ContinueWithSetToken_AppendTo :: "ContinueWithSetToken \<Rightarrow> Values \<Rightarrow> Values \<times> Values" where
  "ContinueWithSetToken_AppendTo c v = (v, [])"

definition NewContinueWithSetToken :: "string \<Rightarrow> ContinueWithSetToken" where
  "NewContinueWithSetToken t =
     \<lparr>cwst_Action = ContinueWithActionSetOrySessionToken, OrySessionToken = t\<rparr>"

text \<open>\<^verbatim>\<open>NewContinueWithVerificationUI(f, address)\<close> reads only \<^verbatim>\<open>f.GetID()\<close>, which is
  passed directly.\<close>

definition NewContinueWithVerificationUI :: "UUID \<Rightarrow> string \<Rightarrow> ContinueWithVerificationUI" where
  "NewContinueWithVerificationUI f_GetID address =
     \<lparr>cwv_Action = ContinueWithActionVerificationUI,
      cwv_Flow = \<lparr>cwvf_ID = f_GetID, VerifiableAddress = address\<rparr>\<rparr>"

text \<open>
  \<^verbatim>\<open>func (c ContinueWithVerificationUI) AppendTo(src *url.URL) *url.URL\<close>: reads the
  query of \<^verbatim>\<open>*src\<close>, sets \<^verbatim>\<open>flow\<close> in the fresh map and returns a copy of the URL with
  that map as its query. The result is the store after the call and the returned
  pointer; \<open>None\<close> is the panic on a nil \<^verbatim>\<open>src\<close>.
\<close>

definition ContinueWithVerificationUI_AppendTo ::
  "ContinueWithVerificationUI \<Rightarrow> url_store \<Rightarrow> url_ptr \<Rightarrow> (url_store \<times> url_ptr) option" where
  "ContinueWithVerificationUI_AppendTo c h src =
     (if src < length h then
        (let values = URL_Query (h ! src);
             values = Values_Set values ''flow'' (UUID_String (cwvf_ID (cwv_Flow c)))
         in urlx_CopyWithQuery h src values)
      else None)"

section \<open>Errors\<close>

text \<open>
  \<^verbatim>\<open>herodot.DefaultError\<close> with the three predefined errors the sources use and the
  \<^verbatim>\<open>With...\<close> methods, which return a changed copy.
\<close>

record DefaultError =
  CodeField :: nat
  StatusField :: string
  ErrorField :: string
  ReasonField :: string
  DebugField :: string

definition ErrNotFound :: DefaultError where
  "ErrNotFound = \<lparr>CodeField = 404, StatusField = ''Not Found'',
     ErrorField = ''The requested resource could not be found'',
     ReasonField = [], DebugField = []\<rparr>"

definition ErrInternalServerError :: DefaultError where
  "ErrInternalServerError = \<lparr>CodeField = 500, StatusField = ''Internal Server Error'',
     ErrorField = ''An internal server error occurred, please contact the system administrator'',
     ReasonField = [], DebugField = []\<rparr>"

definition ErrBadRequest :: DefaultError where
  "ErrBadRequest = \<lparr>CodeField = 400, StatusField = ''Bad Request'',
     ErrorField = ''The request was malformed or contained invalid parameters'',
     ReasonField = [], DebugField = []\<rparr>"

definition WithReason :: "DefaultError \<Rightarrow> string \<Rightarrow> DefaultError" where
  "WithReason e reason = e\<lparr>ReasonField := reason\<rparr>"

definition WithDebug :: "DefaultError \<Rightarrow> string \<Rightarrow> DefaultError" where
  "WithDebug e debug = e\<lparr>DebugField := debug\<rparr>"

text \<open>
  The Go \<^verbatim>\<open>error\<close> values of the sources: a herodot error, a formatted or new plain
  error, the sentinel values the code compares with or returns, and any other error a
  collaborator hands back. \<^verbatim>\<open>errors.WithStack\<close> only attaches a stack trace and is the
  identity here; \<^verbatim>\<open>errors.Is(err, target)\<close> is then equality with the sentinel.
\<close>

datatype error =
    Herodot DefaultError
  | Errorf string
  | ErrNoRows
  | ErrStrategyNotResponsible
  | ErrCompletedByStrategy
  | ErrIDTokenMissing
  | ErrProviderNoAPISupport
  | UserNotFoundError
  | CollaboratorError string

definition WithStack :: "error \<Rightarrow> error" where
  "WithStack e = e"

definition errors_Is :: "error \<Rightarrow> error \<Rightarrow> bool" where
  "errors_Is e target = (e = target)"

section \<open>The provider registry (package \<^verbatim>\<open>oidc\<close>, provider configuration)\<close>

record Configuration =
  cfg_ID :: string
  cfg_Provider :: string
  Label :: string
  ClientID :: string
  ClientSecret :: string
  IssuerURL :: string
  AuthURL :: string
  TokenURL :: string
  Tenant :: string
  SubjectSource :: string
  TeamId :: string
  PrivateKeyId :: string
  PrivateKey :: string
  Scope :: "string list"
  Mapper :: string
  RequestedClaims :: string

record ConfigurationCollection =
  BaseRedirectURI :: string
  cc_Providers :: "Configuration list"

text \<open>
  Modelled from the spec: the constructors \<^verbatim>\<open>NewProviderGenericOIDC\<close>,
  \<^verbatim>\<open>NewProviderGoogle\<close>, ... are not part of the sources. Each one "constructs a fresh
  Provider bound to that configuration and the shared runtime dependencies", without any
  other effect, so a provider is the constructor that made it together with its two
  arguments, and \<^verbatim>\<open>Config()\<close> gives the configuration back.
\<close>

datatype 'reg Provider =
    NewProviderGenericOIDC Configuration 'reg
  | NewProviderGoogle Configuration 'reg
  | NewProviderGitHub Configuration 'reg
  | NewProviderGitHubApp Configuration 'reg
  | NewProviderGitLab Configuration 'reg
  | NewProviderMicrosoft Configuration 'reg
  | NewProviderDiscord Configuration 'reg
  | NewProviderSlack Configuration 'reg
  | NewProviderFacebook Configuration 'reg
  | NewProviderAuth0 Configuration 'reg
  | NewProviderVK Configuration 'reg
  | NewProviderYandex Configuration 'reg
  | NewProviderApple Configuration 'reg
  | NewProviderSpotify Configuration 'reg
  | NewProviderNetID Configuration 'reg
  | NewProviderDingTalk Configuration 'reg
  | NewProviderLinkedIn Configuration 'reg
  | NewProviderPatreon Configuration 'reg

fun Provider_Config :: "'reg Provider \<Rightarrow> Configuration" where
  "Provider_Config (NewProviderGenericOIDC c reg) = c"
| "Provider_Config (NewProviderGoogle c reg) = c"
| "Provider_Config (NewProviderGitHub c reg) = c"
| "Provider_Config (NewProviderGitHubApp c reg) = c"
| "Provider_Config (NewProviderGitLab c reg) = c"
| "Provider_Config (NewProviderMicrosoft c reg) = c"
| "Provider_Config (NewProviderDiscord c reg) = c"
| "Provider_Config (NewProviderSlack c reg) = c"
| "Provider_Config (NewProviderFacebook c reg) = c"
| "Provider_Config (NewProviderAuth0 c reg) = c"
| "Provider_Config (NewProviderVK c reg) = c"
| "Provider_Config (NewProviderYandex c reg) = c"
| "Provider_Config (NewProviderApple c reg) = c"
| "Provider_Config (NewProviderSpotify c reg) = c"
| "Provider_Config (NewProviderNetID c reg) = c"
| "Provider_Config (NewProviderDingTalk c reg) = c"
| "Provider_Config (NewProviderLinkedIn c reg) = c"
| "Provider_Config (NewProviderPatreon c reg) = c"

text \<open>The table \<^verbatim>\<open>providers\<close> of \<^verbatim>\<open>ConfigurationCollection.Provider\<close>, in the order
  of the source; a key is looked up with \<^const>\<open>map_of\<close>.\<close>

definition providers :: "(string \<times> (Configuration \<Rightarrow> 'reg \<Rightarrow> 'reg Provider)) list" where
  "providers =
     [(''generic'', NewProviderGenericOIDC),
      (''google'', NewProviderGoogle),
      (''github'', NewProviderGitHub),
      (''github-app'', NewProviderGitHubApp),
      (''gitlab'', NewProviderGitLab),
      (''microsoft'', NewProviderMicrosoft),
      (''discord'', NewProviderDiscord),
      (''slack'', NewProviderSlack),
      (''facebook'', NewProviderFacebook),
      (''auth0'', NewProviderAuth0),
      (''vk'', NewProviderVK),
      (''yandex'', NewProviderYandex),
      (''apple'', NewProviderApple),
      (''spotify'', NewProviderSpotify),
      (''netid'', NewProviderNetID),
      (''dingtalk'', NewProviderDingTalk),
      (''linkedin'', NewProviderLinkedIn),
      (''patreon'', NewProviderPatreon)]"

text \<open>\<^verbatim>\<open>fmt\<close> prints a \<^verbatim>\<open>[]string\<close> under \<^verbatim>\<open>%v\<close> as its elements between brackets,
  separated by spaces.\<close>

definition fmt_strings :: "string list \<Rightarrow> string" where
  "fmt_strings xs = ''['' @ Join xs '' '' @ '']''"

definition provider_unsupported_message :: "string \<Rightarrow> string list \<Rightarrow> string" where
  "provider_unsupported_message kind providerNames =
     ''provider type '' @ kind @ '' is not supported, supported are: '' @ fmt_strings providerNames"

definition provider_unknown_error :: "string \<Rightarrow> error" where
  "provider_unknown_error id' =
     WithStack (Herodot (WithReason ErrNotFound
       (''OpenID Connect Provider '' @ [CHR 0x22] @ id' @ [CHR 0x22] @
        '' is unknown or has not been configured'')))"

text \<open>
  \<^verbatim>\<open>func (c ConfigurationCollection) Provider(id string, reg dependencies) (Provider, error)\<close>.
  The loop returns at the first configuration with the asked id. Go does not fix the
  order in which \<^verbatim>\<open>for pn := range providers\<close> visits the keys of the table: the
  order the runtime takes is the argument \<open>range_order\<close>, which rearranges the keys
  (every key is visited exactly once).
\<close>

fun Provider_loop ::
  "(string list \<Rightarrow> string list) \<Rightarrow> Configuration list \<Rightarrow> string \<Rightarrow> 'reg \<Rightarrow> error + 'reg Provider" where
  "Provider_loop range_order [] id' reg = Inl (provider_unknown_error id')"
| "Provider_loop range_order (p # ps) id' reg =
     (if cfg_ID p = id' then
        (case map_of providers (cfg_Provider p) of
           None \<Rightarrow>
             (let providerNames = range_order (map fst (providers :: (string \<times> (Configuration \<Rightarrow> 'reg \<Rightarrow> 'reg Provider)) list))
              in Inl (Errorf (provider_unsupported_message (cfg_Provider p) providerNames)))
         | Some f \<Rightarrow> Inr (f p reg))
      else Provider_loop range_order ps id' reg)"

definition ConfigurationCollection_Provider ::
  "(string list \<Rightarrow> string list) \<Rightarrow> ConfigurationCollection \<Rightarrow> string \<Rightarrow> 'reg \<Rightarrow> error + 'reg Provider" where
  "ConfigurationCollection_Provider range_order c id' reg = Provider_loop range_order (cc_Providers c) id' reg"

section \<open>The login strategy (package \<^verbatim>\<open>oidc\<close>, login)\<close>

subsection \<open>Data\<close>

text \<open>
  String-typed enumerations declared in other packages of the repository, with the
  values the strategy uses: \<^verbatim>\<open>identity.CredentialsTypeOIDC\<close> (what \<^verbatim>\<open>s.ID()\<close>
  returns), \<^verbatim>\<open>identity.AuthenticatorAssuranceLevel1\<close>, \<^verbatim>\<open>flow.TypeBrowser\<close>,
  \<^verbatim>\<open>flow.TypeAPI\<close> and \<^verbatim>\<open>node.OpenIDConnectGroup\<close>.
\<close>

type_synonym CredentialsType = string
type_synonym AuthenticatorAssuranceLevel = string
type_synonym FlowType = string

definition CredentialsTypeOIDC :: CredentialsType where
  "CredentialsTypeOIDC = ''oidc''"

definition AuthenticatorAssuranceLevel1 :: AuthenticatorAssuranceLevel where
  "AuthenticatorAssuranceLevel1 = ''aal1''"

definition TypeBrowser :: FlowType where
  "TypeBrowser = ''browser''"

definition TypeAPI :: FlowType where
  "TypeAPI = ''api''"

definition OpenIDConnectGroup :: string where
  "OpenIDConnectGroup = ''oidc''"

text \<open>\<^verbatim>\<open>time.Duration\<close> counts nanoseconds.\<close>

type_synonym Duration = int

definition time_Minute :: Duration where
  "time_Minute = 60 * 1000000000"

text \<open>\<^verbatim>\<open>http.StatusSeeOther\<close>.\<close>

definition StatusSeeOther :: nat where
  "StatusSeeOther = 303"

text \<open>The fields of \<^verbatim>\<open>login.Flow\<close> and \<^verbatim>\<open>registration.Flow\<close> that the strategy reads
  or writes.\<close>

record LoginFlow =
  lf_ID :: UUID
  lf_Type :: FlowType
  lf_Active :: CredentialsType
  lf_ReturnTo :: string
  lf_RequestURL :: string

record RegistrationFlow =
  rf_ID :: UUID
  rf_Type :: FlowType
  rf_ReturnTo :: string
  rf_RequestURL :: string

text \<open>\<^verbatim>\<open>registration.FlowOption\<close>: the one option the strategy builds.\<close>

datatype FlowOption = WithFlowReturnTo string

text \<open>An \<^verbatim>\<open>*http.Request\<close>: its URL, which \<^verbatim>\<open>processLogin\<close> rewrites in place, and
  the rest of the request as the decoders see it.\<close>

record Request =
  req_URL :: URL
  req_Body :: string

record UpdateLoginFlowWithOidcMethod =
  upd_Provider :: string
  CSRFToken :: string
  Method :: string
  upd_Traits :: string
  upd_UpstreamParameters :: string
  IDToken :: string

record Claims =
  Subject :: string
  claims_Issuer :: string

record authCodeContainer =
  acc_FlowID :: string
  acc_State :: string
  acc_Traits :: string

type_synonym Token = string

record Identity =
  ident_ID :: UUID

record Credentials =
  cred_Type :: CredentialsType
  cred_Config :: string

record CredentialsOIDCProvider =
  cop_Subject :: string
  cop_Provider :: string

record CredentialsOIDC =
  co_Providers :: "CredentialsOIDCProvider list"

text \<open>
  Modelled from the spec: \<^verbatim>\<open>session.NewInactiveSession\<close> and
  \<^verbatim>\<open>Session.CompletedLoginFor\<close> are not part of the sources. "A new inactive session is
  created, marked as having completed AAL1 via this strategy": the session starts
  inactive with no completed method, and completing a login adds the method and its
  level to the methods the session records.
\<close>

record Session =
  sess_Active :: bool
  sess_AMR :: "(CredentialsType \<times> AuthenticatorAssuranceLevel) list"

definition NewInactiveSession :: Session where
  "NewInactiveSession = \<lparr>sess_Active = False, sess_AMR = []\<rparr>"

definition CompletedLoginFor :: "Session \<Rightarrow> CredentialsType \<Rightarrow> AuthenticatorAssuranceLevel \<Rightarrow> Session" where
  "CompletedLoginFor sess method aal = sess\<lparr>sess_AMR := sess_AMR sess @ [(method, aal)]\<rparr>"

subsection \<open>Collaborators\<close>

text \<open>
  The strategy reaches everything outside the two functions through its dependencies
  \<^verbatim>\<open>s.d\<close>, its decoder \<^verbatim>\<open>s.dec\<close>, the provider interface and helper functions of
  other files. They are the fields of the record below: each is the function the
  collaborator computes for this request, with an error as the left summand (or as
  \<open>Some\<close> for a call that returns only an error). The provider is an interface, so
  its type is a parameter \<open>'p\<close> and its methods are fields too;
  \<open>ClaimsFromIDToken\<close> is \<open>None\<close> for a provider that does not implement
  \<^verbatim>\<open>APIFlowProvider\<close>, which is what the type assertion tests. \<open>'r\<close> is the type of
  what \<^verbatim>\<open>validateFlow\<close> returns, \<open>'c\<close> the OAuth2 client configuration and \<open>'o\<close> an
  option of the authorization URL.
\<close>

record ('p, 'r, 'c, 'o) Strategy =
  CheckAAL :: "LoginFlow \<Rightarrow> AuthenticatorAssuranceLevel \<Rightarrow> error option"
  newLinkDecoder :: "Request \<Rightarrow> error + UpdateLoginFlowWithOidcMethod"
  MethodEnabledAndAllowedFromRequest :: "Request \<Rightarrow> string \<Rightarrow> error option"
  dec_Decode :: "Request \<Rightarrow> error + UpdateLoginFlowWithOidcMethod"
  SettingsStrategyID :: string
  MethodEnabledAndAllowed :: "string \<Rightarrow> string \<Rightarrow> error option"
  s_provider :: "Request \<Rightarrow> string \<Rightarrow> error + 'p"
  Config :: "'p \<Rightarrow> Configuration"
  OAuth2 :: "'p \<Rightarrow> error + 'c"
  AuthCodeURLOptions :: "'p \<Rightarrow> 'r \<Rightarrow> 'o list"
  ClaimsFromIDToken :: "'p \<Rightarrow> (string \<Rightarrow> error + Claims) option"
  UpstreamParameters :: "'p \<Rightarrow> (string \<times> string) list \<Rightarrow> 'o list"
  AuthCodeURL :: "'c \<Rightarrow> string \<Rightarrow> 'o list \<Rightarrow> string"
  validateFlow :: "Request \<Rightarrow> UUID \<Rightarrow> error + 'r"
  alreadyAuthenticated :: "Request \<Rightarrow> 'r \<Rightarrow> bool"
  generateState :: "string \<Rightarrow> string"
  sessionName :: string
  Pause :: "Request \<Rightarrow> string \<Rightarrow> authCodeContainer \<Rightarrow> Duration \<Rightarrow> error option"
  UpdateLoginFlow :: "LoginFlow \<Rightarrow> error option"
  json_Decode_map :: "string \<Rightarrow> error + (string \<times> string) list"
  IsJSONRequest :: "Request \<Rightarrow> bool"
  FindByCredentialsIdentifier :: "CredentialsType \<Rightarrow> string \<Rightarrow> error + (Identity \<times> Credentials)"
  OIDCUniqueID :: "string \<Rightarrow> string \<Rightarrow> string"
  NewRegistrationFlow :: "Request \<Rightarrow> FlowType \<Rightarrow> FlowOption list \<Rightarrow> error + RegistrationFlow"
  TakeOverReturnToParameter :: "string \<Rightarrow> string \<Rightarrow> error + string"
  processRegistration ::
    "Request \<Rightarrow> RegistrationFlow \<Rightarrow> Token \<Rightarrow> Claims \<Rightarrow> 'p \<Rightarrow> authCodeContainer option \<Rightarrow> error option"
  json_Decode_CredentialsOIDC :: "string \<Rightarrow> error + CredentialsOIDC"
  PostLoginHook :: "Request \<Rightarrow> string \<Rightarrow> LoginFlow \<Rightarrow> Identity \<Rightarrow> Session \<Rightarrow> error option"
  error_Error :: "error \<Rightarrow> string"

text \<open>
  What a call does to the world outside is recorded as a trace of events, one per
  call that reaches the provider, the identity or flow store, the continuity manager,
  the registration and hook collaborators, the error annotation or the HTTP response,
  with the arguments of the call.
\<close>

datatype ('p, 'r) event =
    Call_provider string
  | Call_OAuth2 'p
  | Call_validateFlow UUID
  | Call_alreadyAuthenticated 'r
  | Call_Pause string authCodeContainer Duration
  | Call_UpdateLoginFlow LoginFlow
  | Call_WriteError_BrowserLocationChangeRequired string
  | Call_Redirect string nat
  | Call_ClaimsFromIDToken 'p string
  | Call_FindByCredentialsIdentifier CredentialsType string
  | Call_NewRegistrationFlow Request FlowType "FlowOption list"
  | Call_processRegistration Request RegistrationFlow Token Claims 'p "authCodeContainer option"
  | Call_PostLoginHook Request string LoginFlow Identity Session
  | Call_handleError UUID string "string option" error

text \<open>
  Modelled from the spec: \<^verbatim>\<open>Strategy.handleError\<close> is defined in another file of
  the package. "Every failure path funnels through a single error-annotation step that
  records the provider id, the originating flow, and an optional traits/container
  context, before returning the error to the caller layer": the step adds the context
  to the trace and returns the error it was given.
\<close>

definition handleError ::
  "('p, 'r) event list \<Rightarrow> LoginFlow \<Rightarrow> string \<Rightarrow> string option \<Rightarrow> error \<Rightarrow> error \<times> ('p, 'r) event list" where
  "handleError tr f provider_id traits err =
     (err, tr @ [Call_handleError (lf_ID f) provider_id traits err])"

text \<open>\<^verbatim>\<open>return nil, s.handleError(...)\<close>: no value, the annotated error, and the flow
  or request as it is at that point.\<close>

definition return_nil_error :: "'x \<Rightarrow> error \<times> 'e list \<Rightarrow> ('a option \<times> error option) \<times> 'x \<times> 'e list" where
  "return_nil_error x res = (case res of (e, tr) \<Rightarrow> ((None, Some e), x, tr))"

subsection \<open>\<^verbatim>\<open>Strategy.processLogin\<close>\<close>

definition credentials_mismatch_error :: "string \<Rightarrow> string \<Rightarrow> error" where
  "credentials_mismatch_error provider_id subject =
     WithStack (Herodot (WithDebug
       (WithReason ErrInternalServerError ''Unable to find matching OpenID Connect Credentials.'')
       (''Unable to find credentials that match the given provider '' @ [CHR 0x22] @ provider_id @
        [CHR 0x22] @ '' and subject '' @ [CHR 0x22] @ subject @ [CHR 0x22] @ ''.'')))"

text \<open>
  The loop \<^verbatim>\<open>for _, c := range o.Providers\<close> over the linked provider entries, and
  the statement after it, which is reached when no entry matches.
\<close>

fun processLogin_loop ::
  "('p, 'r, 'c, 'o) Strategy \<Rightarrow> Request \<Rightarrow> LoginFlow \<Rightarrow> Claims \<Rightarrow> string \<Rightarrow> Identity \<Rightarrow> Session \<Rightarrow>
   ('p, 'r) event list \<Rightarrow> CredentialsOIDCProvider list \<Rightarrow>
   (RegistrationFlow option \<times> error option) \<times> Request \<times> ('p, 'r) event list" where
  "processLogin_loop s r a claims provider_id i sess tr [] =
     return_nil_error r
       (handleError tr a provider_id None (credentials_mismatch_error provider_id (Subject claims)))"
| "processLogin_loop s r a claims provider_id i sess tr (c # cs) =
     (if cop_Subject c = Subject claims \<and> cop_Provider c = provider_id then
        (let tr = tr @ [Call_PostLoginHook r OpenIDConnectGroup a i sess]
         in case PostLoginHook s r OpenIDConnectGroup a i sess of
              Some err \<Rightarrow> return_nil_error r (handleError tr a provider_id None err)
            | None \<Rightarrow> ((None, None), r, tr))
      else processLogin_loop s r a claims provider_id i sess tr cs)"

text \<open>
  \<^verbatim>\<open>func (s *Strategy) processLogin(w, r, a, token, claims, provider, container)
  (*registration.Flow, error)\<close>. The result is the pair the function returns, the
  request as the call leaves it (its URL is rewritten on the registration branch) and
  the trace.
\<close>

definition processLogin ::
  "('p, 'r, 'c, 'o) Strategy \<Rightarrow> Request \<Rightarrow> LoginFlow \<Rightarrow> Token \<Rightarrow> Claims \<Rightarrow> 'p \<Rightarrow>
   authCodeContainer option \<Rightarrow>
   (RegistrationFlow option \<times> error option) \<times> Request \<times> ('p, 'r) event list" where
  "processLogin s r a token claims provider container =
     (let provider_id = cfg_ID (Config s provider);
          unique_id = OIDCUniqueID s provider_id (Subject claims);
          tr = [Call_FindByCredentialsIdentifier CredentialsTypeOIDC unique_id]
      in case FindByCredentialsIdentifier s CredentialsTypeOIDC unique_id of
           Inl err \<Rightarrow>
             if errors_Is err ErrNoRows then
               (let opts = (if length (lf_ReturnTo a) > 0 then [WithFlowReturnTo (lf_ReturnTo a)] else []);
                    query = URL_Query (req_URL r);
                    query = Values_Set query ''return_to'' (lf_ReturnTo a);
                    r = r\<lparr>req_URL := (req_URL r)\<lparr>RawQuery := Values_Encode query\<rparr>\<rparr>;
                    tr = tr @ [Call_NewRegistrationFlow r TypeBrowser opts]
                in case NewRegistrationFlow s r TypeBrowser opts of
                     Inl err \<Rightarrow> return_nil_error r (handleError tr a provider_id None err)
                   | Inr aa \<Rightarrow>
                      (case TakeOverReturnToParameter s (lf_RequestURL a) (rf_RequestURL aa) of
                         Inl err \<Rightarrow> return_nil_error r (handleError tr a provider_id None err)
                       | Inr request_url \<Rightarrow>
                          (let aa = aa\<lparr>rf_RequestURL := request_url\<rparr>;
                               tr = tr @ [Call_processRegistration r aa token claims provider container]
                           in case processRegistration s r aa token claims provider container of
                                Some err \<Rightarrow> ((Some aa, Some err), r, tr)
                              | None \<Rightarrow> ((None, None), r, tr))))
             else return_nil_error r (handleError tr a provider_id None err)
         | Inr (i, c) \<Rightarrow>
            (case json_Decode_CredentialsOIDC s (cred_Config c) of
               Inl err \<Rightarrow>
                 return_nil_error r (handleError tr a provider_id None
                   (WithStack (Herodot (WithDebug
                      (WithReason ErrInternalServerError ''The password credentials could not be decoded properly'')
                      (error_Error s err)))))
             | Inr oc \<Rightarrow>
                (let sess = NewInactiveSession;
                     sess = CompletedLoginFor sess CredentialsTypeOIDC AuthenticatorAssuranceLevel1
                 in processLogin_loop s r a claims provider_id i sess tr (co_Providers oc))))"

subsection \<open>\<^verbatim>\<open>Strategy.Login\<close>\<close>

text \<open>
  The result of \<^verbatim>\<open>Login\<close> is the pair it returns, the flow as the call leaves it
  (\<^verbatim>\<open>f\<close> is a pointer and \<^verbatim>\<open>f.Active\<close> is assigned on the browser path) and the trace.
\<close>

type_synonym ('p, 'r) Login_result = "(Identity option \<times> error option) \<times> LoginFlow \<times> ('p, 'r) event list"

text \<open>Decoding the payload: the browser branch and the other branch of the first
  \<^verbatim>\<open>if f.Type == flow.TypeBrowser\<close>. On success the payload \<^verbatim>\<open>p\<close>, \<^verbatim>\<open>pid\<close> and
  \<^verbatim>\<open>idToken\<close>.\<close>

definition Login_decode ::
  "('p, 'r, 'c, 'o) Strategy \<Rightarrow> Request \<Rightarrow> LoginFlow \<Rightarrow>
   ('p, 'r) Login_result + (UpdateLoginFlowWithOidcMethod \<times> string \<times> string)" where
  "Login_decode s r f =
     (if lf_Type f = TypeBrowser then
        (case newLinkDecoder s r of
           Inl err \<Rightarrow>
             Inl (return_nil_error f (handleError [] f [] None
               (WithStack (Herodot (WithReason (WithDebug ErrBadRequest (error_Error s err))
                  (''Unable to parse HTTP form request: '' @ error_Error s err))))))
         | Inr p \<Rightarrow> Inr (p, upd_Provider p, []))
      else
        (case MethodEnabledAndAllowedFromRequest s r CredentialsTypeOIDC of
           Some err \<Rightarrow> Inl ((None, Some err), f, [])
         | None \<Rightarrow>
            (case dec_Decode s r of
               Inl err \<Rightarrow> Inl (return_nil_error f (handleError [] f [] None err))
             | Inr p \<Rightarrow> Inr (p, upd_Provider p, IDToken p))))"

text \<open>The branch \<^verbatim>\<open>if f.Type == flow.TypeBrowser\<close> after the state is generated: pause,
  update the flow, redirect.\<close>

definition Login_browser ::
  "('p, 'r, 'c, 'o) Strategy \<Rightarrow> Request \<Rightarrow> LoginFlow \<Rightarrow> UpdateLoginFlowWithOidcMethod \<Rightarrow> string \<Rightarrow>
   'p \<Rightarrow> 'c \<Rightarrow> 'r \<Rightarrow> string \<Rightarrow> ('p, 'r) event list \<Rightarrow> ('p, 'r) Login_result" where
  "Login_browser s r f p pid provider c req state tr =
     (let payload = \<lparr>acc_FlowID = UUID_String (lf_ID f), acc_State = state, acc_Traits = upd_Traits p\<rparr>;
          tr = tr @ [Call_Pause (sessionName s) payload (time_Minute * 30)]
      in case Pause s r (sessionName s) payload (time_Minute * 30) of
           Some err \<Rightarrow> return_nil_error f (handleError tr f pid None err)
         | None \<Rightarrow>
            (let f = f\<lparr>lf_Active := CredentialsTypeOIDC\<rparr>;
                 tr = tr @ [Call_UpdateLoginFlow f]
             in case UpdateLoginFlow s f of
                  Some err \<Rightarrow>
                    return_nil_error f (handleError tr f pid None
                      (WithStack (Herodot (WithDebug
                         (WithReason ErrInternalServerError ''Could not update flow'')
                         (error_Error s err)))))
                | None \<Rightarrow>
                   (case json_Decode_map s (upd_UpstreamParameters p) of
                      Inl err \<Rightarrow> ((None, Some err), f, tr)
                    | Inr up \<Rightarrow>
                       (let codeURL = AuthCodeURL s c state
                                        (AuthCodeURLOptions s provider req @ UpstreamParameters s provider up);
                            tr = tr @ [if IsJSONRequest s r
                                       then Call_WriteError_BrowserLocationChangeRequired codeURL
                                       else Call_Redirect codeURL StatusSeeOther]
                        in ((None, Some (WithStack ErrCompletedByStrategy)), f, tr)))))"

text \<open>The branch \<^verbatim>\<open>else if f.Type == flow.TypeAPI\<close>.\<close>

definition Login_api ::
  "('p, 'r, 'c, 'o) Strategy \<Rightarrow> Request \<Rightarrow> LoginFlow \<Rightarrow> UpdateLoginFlowWithOidcMethod \<Rightarrow> string \<Rightarrow>
   'p \<Rightarrow> ('p, 'r) event list \<Rightarrow> ('p, 'r) Login_result" where
  "Login_api s r f p idToken provider tr =
     (case ClaimsFromIDToken s provider of
        Some claimsFromIDToken \<Rightarrow>
          if length idToken > 0 then
            (let tr = tr @ [Call_ClaimsFromIDToken provider idToken]
             in case claimsFromIDToken idToken of
                  Inl err \<Rightarrow> ((None, Some (WithStack err)), f, tr)
                | Inr claims \<Rightarrow>
                   (let unique_id = OIDCUniqueID s (cfg_ID (Config s provider)) (Subject claims);
                        tr = tr @ [Call_FindByCredentialsIdentifier CredentialsTypeOIDC unique_id]
                    in case FindByCredentialsIdentifier s CredentialsTypeOIDC unique_id of
                         Inl err \<Rightarrow>
                           if errors_Is err ErrNoRows
                           then return_nil_error f (handleError tr f (upd_Provider p) None UserNotFoundError)
                           else ((None, Some err), f, tr)
                       | Inr (i, _) \<Rightarrow> ((Some i, None), f, tr)))
          else return_nil_error f (handleError tr f (upd_Provider p) None ErrIDTokenMissing)
      | None \<Rightarrow> return_nil_error f (handleError tr f (upd_Provider p) None ErrProviderNoAPISupport))"

text \<open>\<^verbatim>\<open>func (s *Strategy) Login(w, r, f, identityID) (i *identity.Identity, err error)\<close>.\<close>

definition Login ::
  "('p, 'r, 'c, 'o) Strategy \<Rightarrow> Request \<Rightarrow> LoginFlow \<Rightarrow> UUID \<Rightarrow> ('p, 'r) Login_result" where
  "Login s r f identityID =
     (case CheckAAL s f AuthenticatorAssuranceLevel1 of
        Some err \<Rightarrow> ((None, Some err), f, [])
      | None \<Rightarrow>
         (case Login_decode s r f of
            Inl res \<Rightarrow> res
          | Inr (p, pid, idToken) \<Rightarrow>
             if pid = [] then ((None, Some (WithStack ErrStrategyNotResponsible)), f, [])
             else
               (case MethodEnabledAndAllowed s (SettingsStrategyID s) (SettingsStrategyID s) of
                  Some err \<Rightarrow> return_nil_error f (handleError [] f pid None err)
                | None \<Rightarrow>
                   (let tr = [Call_provider pid]
                    in case s_provider s r pid of
                         Inl err \<Rightarrow> return_nil_error f (handleError tr f pid None err)
                       | Inr provider \<Rightarrow>
                          (let tr = tr @ [Call_OAuth2 provider]
                           in case OAuth2 s provider of
                                Inl err \<Rightarrow> return_nil_error f (handleError tr f pid None err)
                              | Inr c \<Rightarrow>
                                 (let tr = tr @ [Call_validateFlow (lf_ID f)]
                                  in case validateFlow s r (lf_ID f) of
                                       Inl err \<Rightarrow> return_nil_error f (handleError tr f pid None err)
                                     | Inr req \<Rightarrow>
                                        (let tr = tr @ [Call_alreadyAuthenticated req]
                                         in if alreadyAuthenticated s r req then ((None, None), f, tr)
                                            else
                                              (let state = generateState s (UUID_String (lf_ID f))
                                               in if lf_Type f = TypeBrowser
                                                  then Login_browser s r f p pid provider c req state tr
                                                  else if lf_Type f = TypeAPI
                                                  then Login_api s r f p idToken provider tr
                                                  else ((None, Some (WithStack (Errorf
                                                          (''Not supported flow type: '' @ lf_Type f)))),
                                                        f, tr)))))))))"

section \<open>A concrete strategy\<close>

text \<open>
  One configuration of the collaborators, on which the functions above can be run: a
  collection with a Google and a GitHub provider and one entry of an unknown kind, a
  decoder that reads the provider id and the ID token from the request body
  (\<^verbatim>\<open>provider,token\<close>), a Google provider that verifies ID tokens, and an identity
  store that knows nobody.
\<close>

definition example_Configuration :: Configuration where
  "example_Configuration =
     \<lparr>cfg_ID = ''corp-google'', cfg_Provider = ''google'', Label = ''Google'', ClientID = ''client'',
      ClientSecret = ''secret'', IssuerURL = [], AuthURL = [], TokenURL = [], Tenant = [],
      SubjectSource = [], TeamId = [], PrivateKeyId = [], PrivateKey = [], Scope = [''openid''],
      Mapper = ''file:///google.jsonnet'', RequestedClaims = []\<rparr>"

definition example_Collection :: ConfigurationCollection where
  "example_Collection =
     \<lparr>BaseRedirectURI = ''https://id.example/'',
      cc_Providers = [example_Configuration,
                      example_Configuration\<lparr>cfg_ID := ''corp-github'', cfg_Provider := ''github''\<rparr>,
                      example_Configuration\<lparr>cfg_ID := ''legacy'', cfg_Provider := ''myspace''\<rparr>]\<rparr>"

definition example_payload :: "string \<Rightarrow> UpdateLoginFlowWithOidcMethod" where
  "example_payload body =
     \<lparr>upd_Provider = takeWhile (\<lambda>c. c \<noteq> CHR '','') body, CSRFToken = [], Method = ''oidc'',
      upd_Traits = ''{}'', upd_UpstreamParameters = ''{}'',
      IDToken = drop 1 (dropWhile (\<lambda>c. c \<noteq> CHR '','') body)\<rparr>"

definition example_Strategy :: "(unit Provider, string, string, string) Strategy" where
  "example_Strategy =
     \<lparr>CheckAAL = (\<lambda>f aal. None),
      newLinkDecoder = (\<lambda>r. Inr (example_payload (req_Body r))),
      MethodEnabledAndAllowedFromRequest = (\<lambda>r m. None),
      dec_Decode = (\<lambda>r. Inr (example_payload (req_Body r))),
      SettingsStrategyID = ''oidc'',
      MethodEnabledAndAllowed = (\<lambda>a b. None),
      s_provider = (\<lambda>r pid. ConfigurationCollection_Provider (\<lambda>ks. ks) example_Collection pid ()),
      Config = Provider_Config,
      OAuth2 = (\<lambda>p. Inr ''oauth2-client''),
      AuthCodeURLOptions = (\<lambda>p req. []),
      ClaimsFromIDToken = (\<lambda>p. if cfg_Provider (Provider_Config p) = ''google''
                                then Some (\<lambda>tok. Inr \<lparr>Subject = tok, claims_Issuer = ''https://accounts.google.com''\<rparr>)
                                else None),
      UpstreamParameters = (\<lambda>p up. map fst up),
      AuthCodeURL = (\<lambda>c state opts. ''https://idp.example/auth?state='' @ state),
      validateFlow = (\<lambda>r fid. Inr ''login-flow''),
      alreadyAuthenticated = (\<lambda>r req. False),
      generateState = (\<lambda>fid. fid @ '':nonce''),
      sessionName = ''oidc_auth_code_session'',
      Pause = (\<lambda>r name payload lifespan. None),
      UpdateLoginFlow = (\<lambda>f. None),
      json_Decode_map = (\<lambda>raw. if raw = ''{}'' then Inr [] else Inl (CollaboratorError ''json: cannot unmarshal'')),
      IsJSONRequest = (\<lambda>r. False),
      FindByCredentialsIdentifier = (\<lambda>ct uid. Inl ErrNoRows),
      OIDCUniqueID = (\<lambda>p sub. p @ '':'' @ sub),
      NewRegistrationFlow = (\<lambda>r t opts. Inr \<lparr>rf_ID = ''0123456789abcdef'', rf_Type = t,
                                rf_ReturnTo = concat (map (\<lambda>opt. case opt of WithFlowReturnTo x \<Rightarrow> x) opts),
                                rf_RequestURL = ''https://id.example/self-service/registration/browser''\<rparr>),
      TakeOverReturnToParameter = (\<lambda>from to. Inr to),
      processRegistration = (\<lambda>r aa token claims p container. None),
      json_Decode_CredentialsOIDC = (\<lambda>cfg. Inr \<lparr>co_Providers = [\<lparr>cop_Subject = cfg, cop_Provider = ''corp-google''\<rparr>]\<rparr>),
      PostLoginHook = (\<lambda>r g a i sess. None),
      error_Error = (\<lambda>e. ''error'')\<rparr>"

definition example_URL :: URL where
  "example_URL = \<lparr>Scheme = ''https'', Opaque = [], User = None, Host = ''id.example'',
     Path = ''/self-service/methods/oidc/callback/corp-google'', RawPath = [], OmitHost = False,
     ForceQuery = False, RawQuery = ''code=abc&state=xyz'', Fragment = [], RawFragment = []\<rparr>"

definition example_Request :: "string \<Rightarrow> Request" where
  "example_Request body = \<lparr>req_URL = example_URL, req_Body = body\<rparr>"

definition example_LoginFlow :: "FlowType \<Rightarrow> LoginFlow" where
  "example_LoginFlow t = \<lparr>lf_ID = ''fedcba9876543210'', lf_Type = t, lf_Active = [],
     lf_ReturnTo = ''https://app.example/home'',
     lf_RequestURL = ''https://id.example/self-service/login/browser?return_to=https%3A%2F%2Fapp.example%2Fhome''\<rparr>"

text \<open>An identity, the claims a provider asserts, the provider itself, and a variant
  of the strategy whose identity store finds the identity for every identifier, with a
  stored credential configuration that links the given subject of \<^verbatim>\<open>corp-google\<close>.\<close>

definition example_Identity :: Identity where
  "example_Identity = \<lparr>ident_ID = ''aaaaaaaaaaaaaaaa''\<rparr>"

definition example_Claims :: Claims where
  "example_Claims = \<lparr>Subject = ''sub-123'', claims_Issuer = ''https://accounts.google.com''\<rparr>"

definition example_Provider :: "unit Provider" where
  "example_Provider = NewProviderGoogle example_Configuration ()"

definition example_known_Strategy :: "string \<Rightarrow> (unit Provider, string, string, string) Strategy" where
  "example_known_Strategy linked_subject =
     example_Strategy\<lparr>FindByCredentialsIdentifier :=
       (\<lambda>ct uid. Inr (example_Identity, \<lparr>cred_Type = ct, cred_Config = linked_subject\<rparr>))\<rparr>"

text \<open>Variants of the strategy: a browser decoder whose payload carries a JSON array as
  upstream parameters, and a provider whose OAuth2 client cannot be built.\<close>

definition example_bad_upstream_Strategy :: "(unit Provider, string, string, string) Strategy" where
  "example_bad_upstream_Strategy =
     example_Strategy\<lparr>newLinkDecoder :=
       (\<lambda>r. Inr ((example_payload (req_Body r))\<lparr>upd_UpstreamParameters := ''[1]''\<rparr>))\<rparr>"

definition example_no_client_Strategy :: "(unit Provider, string, string, string) Strategy" where
  "example_no_client_Strategy =
     example_Strategy\<lparr>OAuth2 := (\<lambda>p. Inl (CollaboratorError ''oidc: discovery failed''))\<rparr>"

text \<open>A verification continuation for the flow with the id of the example login flow.\<close>

definition example_ContinueWith :: ContinueWithVerificationUI where
  "example_ContinueWith = NewContinueWithVerificationUI ''fedcba9876543210'' ''user@example.org''"

text \<open>A variant of the strategy whose registration handler refuses to create a flow.\<close>

definition example_no_registration_Strategy :: "(unit Provider, string, string, string) Strategy" where
  "example_no_registration_Strategy =
     example_Strategy\<lparr>NewRegistrationFlow :=
       (\<lambda>r t opts. Inl (CollaboratorError ''registration is disabled''))\<rparr>"

section \<open>Properties\<close>

subsection \<open>Facts about the library functions\<close>

subsubsection \<open>Escaping and unescaping\<close>

lemma upperhex_ishex: "n < 16 \<Longrightarrow> ishex (upperhex n)"
  by (auto simp: ishex_def upperhex_def Let_def)

lemma unhex_upperhex: "n < 16 \<Longrightarrow> unhex (upperhex n) = n"
  by (auto simp: unhex_def upperhex_def Let_def)

lemma of_char_less_256: "(of_char c :: nat) < 256"
  by (metis of_char_mod_256 mod_less_divisor zero_less_numeral)

lemma nibble_bounds: "(of_char c :: nat) div 16 < 16" "(of_char c :: nat) mod 16 < 16"
proof -
  have "(of_char c :: nat) < 16 * 16" using of_char_less_256 [of c] by simp
  then show "(of_char c :: nat) div 16 < 16" by (simp only: div_less_iff_less_mult zero_less_numeral)
  show "(of_char c :: nat) mod 16 < 16" by simp
qed

lemma unescaped_not_special:
  assumes "\<not> shouldEscape c"
  shows "c \<noteq> CHR ''%''" "c \<noteq> CHR ''+''" "c \<noteq> CHR ''&''" "c \<noteq> CHR ''=''" "c \<noteq> CHR '';''"
  using assms by (auto simp: shouldEscape_def isAlnum_def Let_def split: if_splits)

lemma QueryUnescape_QueryEscape: "QueryUnescape (QueryEscape s) = Some s"
proof (induction s)
  case Nil
  then show ?case by simp
next
  case (Cons c cs)
  show ?case
  proof (cases "shouldEscape c")
    case True
    then show ?thesis
      using Cons nibble_bounds [of c]
      by (simp add: upperhex_ishex unhex_upperhex)
  next
    case False
    then show ?thesis
      using Cons unescaped_not_special [OF False] by simp
  qed
qed

lemma upperhex_code: "n < 16 \<Longrightarrow> (of_char (upperhex n) :: nat) = (if n < 10 then 48 + n else 55 + n)"
  by (simp add: upperhex_def)

lemma upperhex_not_special:
  assumes "n < 16"
  shows "upperhex n \<noteq> CHR ''&''" "upperhex n \<noteq> CHR ''=''" "upperhex n \<noteq> CHR '';''"
proof -
  have "(of_char (upperhex n) :: nat) \<noteq> of_char CHR ''&''"
    "(of_char (upperhex n) :: nat) \<noteq> of_char CHR ''=''"
    "(of_char (upperhex n) :: nat) \<noteq> of_char CHR '';''"
    using assms by (simp_all add: upperhex_code)
  then show "upperhex n \<noteq> CHR ''&''" "upperhex n \<noteq> CHR ''=''" "upperhex n \<noteq> CHR '';''"
    by auto
qed

lemma QueryEscape_no_separator:
  "CHR ''&'' \<notin> set (QueryEscape s) \<and> CHR ''='' \<notin> set (QueryEscape s) \<and> CHR '';'' \<notin> set (QueryEscape s)"
proof (induction s)
  case Nil
  then show ?case by simp
next
  case (Cons c cs)
  show ?case
  proof (cases "shouldEscape c")
    case True
    then show ?thesis
      using Cons upperhex_not_special [OF nibble_bounds(1) [of c]] upperhex_not_special [OF nibble_bounds(2) [of c]]
      by auto
  next
    case False
    then show ?thesis
      using Cons unescaped_not_special [OF False] by auto
  qed
qed

subsubsection \<open>Parsing an encoded query\<close>

lemma Cut_absent: "sep \<notin> set a \<Longrightarrow> Cut sep a = (a, [], False)"
  by (induction a) auto

lemma Cut_first: "sep \<notin> set a \<Longrightarrow> Cut sep (a @ sep # b) = (a, b, True)"
  by (induction a) auto

lemma Values_Encode_pairs: "Values_Encode v = Join (map pair_segment (Values_pairs v)) ''&''"
  by (simp add: Values_Encode_def Values_pairs_def pair_segment_def map_concat comp_def)

lemma pair_segment_chars:
  "CHR ''&'' \<notin> set (pair_segment p)" "CHR '';'' \<notin> set (pair_segment p)" "pair_segment p \<noteq> []"
  using QueryEscape_no_separator [of "fst p"] QueryEscape_no_separator [of "snd p"]
  by (auto simp: pair_segment_def)

lemma Cut_pair_segment:
  "Cut CHR ''='' (pair_segment p) = (QueryEscape (fst p), QueryEscape (snd p), True)"
  using QueryEscape_no_separator [of "fst p"]
  by (simp add: pair_segment_def Cut_first)

lemma parseQuery_Nil: "parseQuery m [] = m"
  by (subst parseQuery.simps) simp

lemma parseQuery_segment_last:
  "parseQuery m (pair_segment p) = Values_Add m (fst p) (snd p)"
  by (subst parseQuery.simps)
    (simp add: pair_segment_chars Cut_absent Cut_pair_segment QueryUnescape_QueryEscape parseQuery_Nil)

lemma parseQuery_segment_more:
  "parseQuery m (pair_segment p @ CHR ''&'' # rest) = parseQuery (Values_Add m (fst p) (snd p)) rest"
  by (subst parseQuery.simps)
    (simp add: pair_segment_chars Cut_first Cut_pair_segment QueryUnescape_QueryEscape)

lemma parseQuery_Join:
  "parseQuery m (Join (map pair_segment ps) ''&'') = foldl (\<lambda>m p. Values_Add m (fst p) (snd p)) m ps"
proof (induction ps arbitrary: m)
  case Nil
  then show ?case by (simp add: parseQuery_Nil)
next
  case (Cons p ps)
  show ?case
  proof (cases ps)
    case Nil
    then show ?thesis by (simp add: parseQuery_segment_last)
  next
    case (Cons q qs)
    with Cons.IH [of "Values_Add m (fst p) (snd p)"] show ?thesis
      by (simp add: parseQuery_segment_more)
  qed
qed

subsubsection \<open>Lookups in a map\<close>

lemma Values_lookup_Set:
  "Values_lookup (Values_Set v key val) k = (if k = key then [val] else Values_lookup v k)"
  by (simp add: Values_lookup_def Values_Set_def update_conv')

lemma Values_lookup_Add:
  "Values_lookup (Values_Add v key val) k =
     (if k = key then Values_lookup v key @ [val] else Values_lookup v k)"
  by (simp add: Values_lookup_def Values_Add_def update_conv')

lemma Values_lookup_foldl_Add:
  "Values_lookup (foldl (\<lambda>m p. Values_Add m (fst p) (snd p)) m ps) k =
     Values_lookup m k @ map snd (filter (\<lambda>p. fst p = k) ps)"
  by (induction ps arbitrary: m) (simp_all add: Values_lookup_Add)

lemma Values_lookup_absent: "k \<notin> set (Values_keys v) \<Longrightarrow> Values_lookup v k = []"
  by (simp add: Values_keys_def Values_lookup_def map_of_eq_None_iff [THEN iffD2])

lemma distinct_Values_keys: "distinct (Values_keys v)"
  by (simp add: Values_keys_def)

lemma filter_pairs_of_keys:
  assumes "distinct ks"
  shows "map snd (filter (\<lambda>p. fst p = k) (concat (map (\<lambda>k'. map (Pair k') (f k')) ks))) =
           (if k \<in> set ks then f k else [])"
  using assms
proof (induction ks)
  case Nil
  then show ?case by simp
next
  case (Cons a ks)
  have same: "filter (\<lambda>p. fst p = k) (map (Pair a) (f a)) = (if a = k then map (Pair a) (f a) else [])"
    by (induction "f a") (auto simp: filter_empty_conv)
  from Cons show ?case by (auto simp: same comp_def)
qed

lemma Values_lookup_pairs:
  "map snd (filter (\<lambda>p. fst p = k) (Values_pairs v)) = Values_lookup v k"
  unfolding Values_pairs_def
  by (simp add: filter_pairs_of_keys [OF distinct_Values_keys] Values_lookup_absent)

text \<open>Parsing what \<^const>\<open>Values_Encode\<close> wrote gives every key the values it had.\<close>

lemma Values_lookup_ParseQuery_Encode:
  "Values_lookup (ParseQuery (Values_Encode v)) k = Values_lookup v k"
proof -
  have "Values_lookup ([] :: Values) k = []" by (simp add: Values_lookup_def)
  then show ?thesis
    by (simp add: ParseQuery_def Values_Encode_pairs parseQuery_Join Values_lookup_foldl_Add
          Values_lookup_pairs)
qed

subsubsection \<open>The encoding depends on the lookups only\<close>

lemma concat_map_nonempty:
  "concat (map g ks) = concat (map g (filter (\<lambda>k. g k \<noteq> []) ks))"
  by (induction ks) auto

lemma Values_keys_nonempty:
  "filter (\<lambda>k. Values_lookup v k \<noteq> []) (Values_keys v) =
     sorted_list_of_set {k. Values_lookup v k \<noteq> []}"
proof -
  have "filter (\<lambda>k. Values_lookup v k \<noteq> []) (Values_keys v) =
          sort (remdups (filter (\<lambda>k. Values_lookup v k \<noteq> []) (map fst v)))"
    by (simp add: Values_keys_def filter_sort remdups_filter)
  also have "\<dots> = sorted_list_of_set (set (filter (\<lambda>k. Values_lookup v k \<noteq> []) (map fst v)))"
    by (simp only: sorted_list_of_set_sort_remdups)
  also have "set (filter (\<lambda>k. Values_lookup v k \<noteq> []) (map fst v)) = {k. Values_lookup v k \<noteq> []}"
    using Values_lookup_absent [of _ v] by (auto simp: Values_keys_def)
  finally show ?thesis .
qed

lemma Values_pairs_canonical:
  "Values_pairs v =
     concat (map (\<lambda>k. map (Pair k) (Values_lookup v k))
               (sorted_list_of_set {k. Values_lookup v k \<noteq> []}))"
proof -
  have "Values_pairs v =
          concat (map (\<lambda>k. map (Pair k) (Values_lookup v k))
                    (filter (\<lambda>k. map (Pair k) (Values_lookup v k) \<noteq> []) (Values_keys v)))"
    unfolding Values_pairs_def by (rule concat_map_nonempty)
  then show ?thesis by (simp add: Values_keys_nonempty)
qed

lemma Values_Encode_cong:
  assumes "\<And>k. Values_lookup v k = Values_lookup w k"
  shows "Values_Encode v = Values_Encode w"
  by (simp add: Values_Encode_pairs Values_pairs_canonical assms)

subsection \<open>The entry point up to the dispatch on the flow type\<close>

lemma Login_decode_browser:
  assumes "lf_Type f = TypeBrowser" and "newLinkDecoder s r = Inr p"
  shows "Login_decode s r f = Inr (p, upd_Provider p, [])"
  using assms by (simp add: Login_decode_def)

lemma Login_decode_other:
  assumes "lf_Type f \<noteq> TypeBrowser"
    and "MethodEnabledAndAllowedFromRequest s r CredentialsTypeOIDC = None"
    and "dec_Decode s r = Inr p"
  shows "Login_decode s r f = Inr (p, upd_Provider p, IDToken p)"
  using assms by (simp add: Login_decode_def)

lemma Login_dispatch:
  assumes "CheckAAL s f AuthenticatorAssuranceLevel1 = None"
    and "Login_decode s r f = Inr (p, pid, idToken)"
    and "pid \<noteq> []"
    and "MethodEnabledAndAllowed s (SettingsStrategyID s) (SettingsStrategyID s) = None"
    and "s_provider s r pid = Inr provider"
    and "OAuth2 s provider = Inr c"
    and "validateFlow s r (lf_ID f) = Inr req"
    and "\<not> alreadyAuthenticated s r req"
  shows "Login s r f identityID =
           (if lf_Type f = TypeBrowser
            then Login_browser s r f p pid provider c req (generateState s (UUID_String (lf_ID f)))
                   [Call_provider pid, Call_OAuth2 provider, Call_validateFlow (lf_ID f),
                    Call_alreadyAuthenticated req]
            else if lf_Type f = TypeAPI
            then Login_api s r f p idToken provider
                   [Call_provider pid, Call_OAuth2 provider, Call_validateFlow (lf_ID f),
                    Call_alreadyAuthenticated req]
            else ((None, Some (Errorf (''Not supported flow type: '' @ lf_Type f))), f,
                  [Call_provider pid, Call_OAuth2 provider, Call_validateFlow (lf_ID f),
                   Call_alreadyAuthenticated req]))"
  using assms by (simp add: Login_def Let_def WithStack_def)

lemma TypeAPI_not_TypeBrowser: "TypeAPI \<noteq> TypeBrowser"
  by (simp add: TypeAPI_def TypeBrowser_def)

lemmas example_defs =
  example_Strategy_def example_Request_def example_LoginFlow_def example_payload_def
  example_Collection_def example_Configuration_def example_Provider_def example_URL_def
  example_Claims_def example_Identity_def

subsection \<open>The browser path: suspend and redirect\<close>

text \<open>
  Claim C5, as stated, fails. A browser flow with provider \<^verbatim>\<open>corp-google\<close> that
  passes every check, resolves the provider and is not already authenticated, is paused
  and its update is persisted; the payload carries the JSON array \<^verbatim>\<open>[1]\<close> as upstream
  parameters, which does not decode into a map of strings. \<^verbatim>\<open>Login\<close> then returns
  the decoding error, not \<^verbatim>\<open>ErrCompletedByStrategy\<close>, and no redirect is written.
\<close>

theorem Login_browser_completed_counterexample:
  "lf_Type (example_LoginFlow TypeBrowser) = TypeBrowser \<and>
   s_provider example_bad_upstream_Strategy (example_Request ''corp-google,'') ''corp-google'' = Inr example_Provider \<and>
   \<not> alreadyAuthenticated example_bad_upstream_Strategy (example_Request ''corp-google,'') ''login-flow'' \<and>
   Login example_bad_upstream_Strategy (example_Request ''corp-google,'') (example_LoginFlow TypeBrowser) [] =
     ((None, Some (CollaboratorError ''json: cannot unmarshal'')),
      (example_LoginFlow TypeBrowser)\<lparr>lf_Active := CredentialsTypeOIDC\<rparr>,
      [Call_provider ''corp-google'', Call_OAuth2 example_Provider,
       Call_validateFlow ''fedcba9876543210'', Call_alreadyAuthenticated ''login-flow'',
       Call_Pause ''oidc_auth_code_session''
         \<lparr>acc_FlowID = ''66656463-6261-3938-3736-353433323130'',
          acc_State = ''66656463-6261-3938-3736-353433323130:nonce'', acc_Traits = ''{}''\<rparr>
         1800000000000,
       Call_UpdateLoginFlow ((example_LoginFlow TypeBrowser)\<lparr>lf_Active := CredentialsTypeOIDC\<rparr>)]) \<and>
   snd (fst (Login example_bad_upstream_Strategy (example_Request ''corp-google,'')
               (example_LoginFlow TypeBrowser) [])) \<noteq> Some ErrCompletedByStrategy"
  by code_simp

text \<open>
  Claim C5, amended. A browser flow that passes the AAL check, whose payload decodes with a
  non-empty provider id, whose method is enabled, whose provider resolves and gives an
  OAuth2 client, that validates and is not already authenticated: \<^verbatim>\<open>Login\<close> pauses
  the continuity channel with the payload of generated state, flow id and submitted
  traits and a lifespan of 30 minutes. If the pause fails, its error is annotated and
  returned. Otherwise the flow's active method is set to this strategy and the flow
  update is persisted; if that fails, an internal-server error is annotated and
  returned. Otherwise the upstream parameters are decoded; if that fails, the decoding
  error is returned as it is. Otherwise the redirect to the authorization URL is written
  (as an error body for a JSON request, as a 303 otherwise) and \<^verbatim>\<open>Login\<close> returns no
  identity and \<^verbatim>\<open>ErrCompletedByStrategy\<close>.
\<close>

theorem Login_browser_suspends:
  assumes browser: "lf_Type f = TypeBrowser"
    and aal: "CheckAAL s f AuthenticatorAssuranceLevel1 = None"
    and decoded: "newLinkDecoder s r = Inr p"
    and pid: "upd_Provider p \<noteq> []"
    and enabled: "MethodEnabledAndAllowed s (SettingsStrategyID s) (SettingsStrategyID s) = None"
    and resolved: "s_provider s r (upd_Provider p) = Inr provider"
    and client: "OAuth2 s provider = Inr c"
    and valid: "validateFlow s r (lf_ID f) = Inr req"
    and not_authenticated: "\<not> alreadyAuthenticated s r req"
  shows "\<exists>state payload lifespan f' calls codeURL.
           state = generateState s (UUID_String (lf_ID f)) \<and>
           payload = \<lparr>acc_FlowID = UUID_String (lf_ID f), acc_State = state, acc_Traits = upd_Traits p\<rparr> \<and>
           lifespan = 30 * time_Minute \<and> lifespan = 1800 * 1000000000 \<and>
           f' = f\<lparr>lf_Active := CredentialsTypeOIDC\<rparr> \<and>
           calls = [Call_provider (upd_Provider p), Call_OAuth2 provider, Call_validateFlow (lf_ID f),
                    Call_alreadyAuthenticated req, Call_Pause (sessionName s) payload lifespan] \<and>
           Login s r f identityID =
             (case Pause s r (sessionName s) payload lifespan of
                Some err \<Rightarrow>
                  ((None, Some err), f, calls @ [Call_handleError (lf_ID f) (upd_Provider p) None err])
              | None \<Rightarrow>
                 (case UpdateLoginFlow s f' of
                    Some err \<Rightarrow>
                      ((None, Some (Herodot (WithDebug (WithReason ErrInternalServerError ''Could not update flow'')
                                      (error_Error s err)))),
                       f',
                       calls @ [Call_UpdateLoginFlow f',
                                Call_handleError (lf_ID f) (upd_Provider p) None
                                  (Herodot (WithDebug (WithReason ErrInternalServerError ''Could not update flow'')
                                      (error_Error s err)))])
                  | None \<Rightarrow>
                     (case json_Decode_map s (upd_UpstreamParameters p) of
                        Inl err \<Rightarrow> ((None, Some err), f', calls @ [Call_UpdateLoginFlow f'])
                      | Inr up \<Rightarrow>
                         ((None, Some ErrCompletedByStrategy), f',
                          calls @ [Call_UpdateLoginFlow f',
                                   if IsJSONRequest s r
                                   then Call_WriteError_BrowserLocationChangeRequired
                                          (AuthCodeURL s c state
                                             (AuthCodeURLOptions s provider req @ UpstreamParameters s provider up))
                                   else Call_Redirect
                                          (AuthCodeURL s c state
                                             (AuthCodeURLOptions s provider req @ UpstreamParameters s provider up))
                                          StatusSeeOther]))))"
proof -
  have "Login s r f identityID =
          Login_browser s r f p (upd_Provider p) provider c req (generateState s (UUID_String (lf_ID f)))
            [Call_provider (upd_Provider p), Call_OAuth2 provider, Call_validateFlow (lf_ID f),
             Call_alreadyAuthenticated req]"
    using Login_dispatch [OF aal Login_decode_browser [OF browser decoded] pid enabled resolved
        client valid not_authenticated]
    by (simp add: browser)
  then show ?thesis
    by (simp add: Login_browser_def Let_def handleError_def return_nil_error_def WithStack_def
          time_Minute_def mult.commute
        split: option.split sum.split)
qed

theorem Login_browser_suspends_witness:
  "Login example_Strategy (example_Request ''corp-google,'') (example_LoginFlow TypeBrowser) [] =
     ((None, Some ErrCompletedByStrategy),
      (example_LoginFlow TypeBrowser)\<lparr>lf_Active := CredentialsTypeOIDC\<rparr>,
      [Call_provider ''corp-google'', Call_OAuth2 example_Provider,
       Call_validateFlow ''fedcba9876543210'', Call_alreadyAuthenticated ''login-flow'',
       Call_Pause ''oidc_auth_code_session''
         \<lparr>acc_FlowID = ''66656463-6261-3938-3736-353433323130'',
          acc_State = ''66656463-6261-3938-3736-353433323130:nonce'', acc_Traits = ''{}''\<rparr>
         1800000000000,
       Call_UpdateLoginFlow ((example_LoginFlow TypeBrowser)\<lparr>lf_Active := CredentialsTypeOIDC\<rparr>),
       Call_Redirect ''https://idp.example/auth?state=66656463-6261-3938-3736-353433323130:nonce'' 303])"
proof -
  let ?s = example_Strategy and ?r = "example_Request ''corp-google,''"
    and ?f = "example_LoginFlow TypeBrowser" and ?p = "example_payload ''corp-google,''"
  have browser: "lf_Type ?f = TypeBrowser" by (simp add: example_defs)
  have aal: "CheckAAL ?s ?f AuthenticatorAssuranceLevel1 = None" by (simp add: example_defs)
  have decoded: "newLinkDecoder ?s ?r = Inr ?p" by (simp add: example_defs)
  have pid: "upd_Provider ?p \<noteq> []" by (simp add: example_defs)
  have enabled: "MethodEnabledAndAllowed ?s (SettingsStrategyID ?s) (SettingsStrategyID ?s) = None"
    by (simp add: example_defs)
  have resolved: "s_provider ?s ?r (upd_Provider ?p) = Inr example_Provider"
    by (simp add: example_defs ConfigurationCollection_Provider_def providers_def)
  have client: "OAuth2 ?s example_Provider = Inr ''oauth2-client''" by (simp add: example_defs)
  have valid: "validateFlow ?s ?r (lf_ID ?f) = Inr ''login-flow''" by (simp add: example_defs)
  have not_authenticated: "\<not> alreadyAuthenticated ?s ?r ''login-flow''" by (simp add: example_defs)
  have pause: "Pause ?s ?r n payload lifespan = None" for n payload lifespan
    by (simp add: example_defs)
  have update: "UpdateLoginFlow ?s g = None" for g by (simp add: example_defs)
  have upstream: "json_Decode_map ?s (upd_UpstreamParameters ?p) = Inr []" by (simp add: example_defs)
  have not_json: "\<not> IsJSONRequest ?s ?r" by (simp add: example_defs)
  have state: "generateState ?s x = x @ '':nonce''" for x by (simp add: example_defs)
  have url: "AuthCodeURL ?s cl st opts = ''https://idp.example/auth?state='' @ st" for cl st opts
    by (simp add: example_defs)
  have flow_id: "lf_ID ?f = ''fedcba9876543210''" by (simp add: example_defs)
  have flow_id_string: "UUID_String ''fedcba9876543210'' = ''66656463-6261-3938-3736-353433323130''"
    by code_simp
  have payload: "upd_Traits ?p = ''{}''" "upd_Provider ?p = ''corp-google''"
    "sessionName ?s = ''oidc_auth_code_session''"
    by (simp_all add: example_defs)
  from Login_browser_suspends [OF browser aal decoded pid enabled resolved client valid
      not_authenticated, of "[]"]
  show ?thesis
    by (simp add: pause update upstream not_json state url flow_id flow_id_string payload
          StatusSeeOther_def)
qed

subsection \<open>The native path\<close>

text \<open>
  Claim C7, as stated, fails. An API flow for \<^verbatim>\<open>corp-google\<close>, a provider that
  verifies ID tokens, with no ID token in the payload: \<^verbatim>\<open>Login\<close> asks the provider
  for its OAuth2 client and validates the flow before it looks at the ID token. When the
  provider cannot build the client, \<^verbatim>\<open>Login\<close> returns that error and not
  \<^verbatim>\<open>ErrIDTokenMissing\<close>; when it can, \<^verbatim>\<open>ErrIDTokenMissing\<close> is returned after
  the provider has been called.
\<close>

theorem Login_native_token_missing_counterexample:
  "lf_Type (example_LoginFlow TypeAPI) = TypeAPI \<and>
   IDToken (example_payload ''corp-google,'') = [] \<and>
   ClaimsFromIDToken example_no_client_Strategy example_Provider \<noteq> None \<and>
   Login example_no_client_Strategy (example_Request ''corp-google,'') (example_LoginFlow TypeAPI) [] =
     ((None, Some (CollaboratorError ''oidc: discovery failed'')), example_LoginFlow TypeAPI,
      [Call_provider ''corp-google'', Call_OAuth2 example_Provider,
       Call_handleError ''fedcba9876543210'' ''corp-google'' None
         (CollaboratorError ''oidc: discovery failed'')]) \<and>
   Login example_Strategy (example_Request ''corp-google,'') (example_LoginFlow TypeAPI) [] =
     ((None, Some ErrIDTokenMissing), example_LoginFlow TypeAPI,
      [Call_provider ''corp-google'', Call_OAuth2 example_Provider,
       Call_validateFlow ''fedcba9876543210'', Call_alreadyAuthenticated ''login-flow'',
       Call_handleError ''fedcba9876543210'' ''corp-google'' None ErrIDTokenMissing])"
  by code_simp

text \<open>
  Claim C7, amended. An API flow that passes the AAL check and the method check of the
  request, whose payload decodes with a non-empty provider id, whose method is enabled,
  whose provider resolves and gives an OAuth2 client, that validates and is not already
  authenticated: if the provider does not verify ID tokens, \<^verbatim>\<open>Login\<close> fails with
  \<^verbatim>\<open>ErrProviderNoAPISupport\<close>; if it does and the payload has no ID token,
  \<^verbatim>\<open>Login\<close> fails with \<^verbatim>\<open>ErrIDTokenMissing\<close>. In both cases the provider's
  token verification and the identity store have not been called; what has been called
  is the provider resolution, the provider's OAuth2 client, the flow validation and the
  authentication check.
\<close>

theorem Login_native_capability_errors:
  assumes api: "lf_Type f = TypeAPI"
    and aal: "CheckAAL s f AuthenticatorAssuranceLevel1 = None"
    and method_allowed: "MethodEnabledAndAllowedFromRequest s r CredentialsTypeOIDC = None"
    and decoded: "dec_Decode s r = Inr p"
    and pid: "upd_Provider p \<noteq> []"
    and enabled: "MethodEnabledAndAllowed s (SettingsStrategyID s) (SettingsStrategyID s) = None"
    and resolved: "s_provider s r (upd_Provider p) = Inr provider"
    and client: "OAuth2 s provider = Inr c"
    and valid: "validateFlow s r (lf_ID f) = Inr req"
    and not_authenticated: "\<not> alreadyAuthenticated s r req"
  shows "(ClaimsFromIDToken s provider = None \<longrightarrow>
            Login s r f identityID =
              ((None, Some ErrProviderNoAPISupport), f,
               [Call_provider (upd_Provider p), Call_OAuth2 provider, Call_validateFlow (lf_ID f),
                Call_alreadyAuthenticated req,
                Call_handleError (lf_ID f) (upd_Provider p) None ErrProviderNoAPISupport])) \<and>
         (ClaimsFromIDToken s provider \<noteq> None \<longrightarrow> IDToken p = [] \<longrightarrow>
            Login s r f identityID =
              ((None, Some ErrIDTokenMissing), f,
               [Call_provider (upd_Provider p), Call_OAuth2 provider, Call_validateFlow (lf_ID f),
                Call_alreadyAuthenticated req,
                Call_handleError (lf_ID f) (upd_Provider p) None ErrIDTokenMissing]))"
proof -
  have other: "lf_Type f \<noteq> TypeBrowser" using api TypeAPI_not_TypeBrowser by simp
  have "Login s r f identityID =
          Login_api s r f p (IDToken p) provider
            [Call_provider (upd_Provider p), Call_OAuth2 provider, Call_validateFlow (lf_ID f),
             Call_alreadyAuthenticated req]"
    using Login_dispatch [OF aal Login_decode_other [OF other method_allowed decoded] pid enabled resolved
        client valid not_authenticated]
    by (simp add: api TypeAPI_not_TypeBrowser)
  then show ?thesis
    by (auto simp: Login_api_def handleError_def return_nil_error_def)
qed

theorem Login_native_capability_errors_witness:
  "Login example_Strategy (example_Request ''corp-github,tok'') (example_LoginFlow TypeAPI) [] =
     ((None, Some ErrProviderNoAPISupport), example_LoginFlow TypeAPI,
      [Call_provider ''corp-github'',
       Call_OAuth2 (NewProviderGitHub (example_Configuration\<lparr>cfg_ID := ''corp-github'', cfg_Provider := ''github''\<rparr>) ()),
       Call_validateFlow ''fedcba9876543210'', Call_alreadyAuthenticated ''login-flow'',
       Call_handleError ''fedcba9876543210'' ''corp-github'' None ErrProviderNoAPISupport]) \<and>
   Login example_Strategy (example_Request ''corp-google,'') (example_LoginFlow TypeAPI) [] =
     ((None, Some ErrIDTokenMissing), example_LoginFlow TypeAPI,
      [Call_provider ''corp-google'', Call_OAuth2 example_Provider,
       Call_validateFlow ''fedcba9876543210'', Call_alreadyAuthenticated ''login-flow'',
       Call_handleError ''fedcba9876543210'' ''corp-google'' None ErrIDTokenMissing])"
proof -
  let ?s = example_Strategy and ?f = "example_LoginFlow TypeAPI"
  let ?github = "NewProviderGitHub (example_Configuration\<lparr>cfg_ID := ''corp-github'', cfg_Provider := ''github''\<rparr>) ()"
  have api: "lf_Type ?f = TypeAPI" by (simp add: example_defs)
  have aal: "CheckAAL ?s ?f AuthenticatorAssuranceLevel1 = None" by (simp add: example_defs)
  have method_allowed: "MethodEnabledAndAllowedFromRequest ?s r CredentialsTypeOIDC = None" for r
    by (simp add: example_defs)
  have decoded: "dec_Decode ?s (example_Request body) = Inr (example_payload body)" for body
    by (simp add: example_defs)
  have enabled: "MethodEnabledAndAllowed ?s (SettingsStrategyID ?s) (SettingsStrategyID ?s) = None"
    by (simp add: example_defs)
  have client: "OAuth2 ?s q = Inr ''oauth2-client''" for q by (simp add: example_defs)
  have valid: "validateFlow ?s r (lf_ID ?f) = Inr ''login-flow''" for r by (simp add: example_defs)
  have not_authenticated: "\<not> alreadyAuthenticated ?s r ''login-flow''" for r by (simp add: example_defs)
  have pid1: "upd_Provider (example_payload ''corp-github,tok'') \<noteq> []" by (simp add: example_defs)
  have resolved1: "s_provider ?s (example_Request ''corp-github,tok'')
      (upd_Provider (example_payload ''corp-github,tok'')) = Inr ?github"
    by (simp add: example_defs ConfigurationCollection_Provider_def providers_def)
  have pid2: "upd_Provider (example_payload ''corp-google,'') \<noteq> []" by (simp add: example_defs)
  have resolved2: "s_provider ?s (example_Request ''corp-google,'')
      (upd_Provider (example_payload ''corp-google,'')) = Inr example_Provider"
    by (simp add: example_defs ConfigurationCollection_Provider_def providers_def)
  have "Login ?s (example_Request ''corp-github,tok'') ?f [] =
     ((None, Some ErrProviderNoAPISupport), ?f,
      [Call_provider ''corp-github'', Call_OAuth2 ?github,
       Call_validateFlow ''fedcba9876543210'', Call_alreadyAuthenticated ''login-flow'',
       Call_handleError ''fedcba9876543210'' ''corp-github'' None ErrProviderNoAPISupport])"
    using Login_native_capability_errors [OF api aal method_allowed decoded pid1 enabled resolved1 client
        valid not_authenticated, of "[]"]
    by (simp add: example_defs)
  moreover have "Login ?s (example_Request ''corp-google,'') ?f [] =
     ((None, Some ErrIDTokenMissing), ?f,
      [Call_provider ''corp-google'', Call_OAuth2 example_Provider,
       Call_validateFlow ''fedcba9876543210'', Call_alreadyAuthenticated ''login-flow'',
       Call_handleError ''fedcba9876543210'' ''corp-google'' None ErrIDTokenMissing])"
    using Login_native_capability_errors [OF api aal method_allowed decoded pid2 enabled resolved2 client
        valid not_authenticated, of "[]"]
    by (simp add: example_defs)
  ultimately show ?thesis by blast
qed

text \<open>
  Claim C2, as stated, fails. An API flow for \<^verbatim>\<open>corp-google\<close> with an ID token from
  which the provider extracts claims, and an identity store that has no identity for the
  identifier: \<^verbatim>\<open>Login\<close> returns the user-not-found error, and neither a registration
  flow is created nor the registration counterpart called.
\<close>

theorem Login_native_pivot_counterexample:
  "lf_Type (example_LoginFlow TypeAPI) = TypeAPI \<and>
   FindByCredentialsIdentifier example_Strategy CredentialsTypeOIDC ''corp-google:tok'' = Inl ErrNoRows \<and>
   Login example_Strategy (example_Request ''corp-google,tok'') (example_LoginFlow TypeAPI) [] =
     ((None, Some UserNotFoundError), example_LoginFlow TypeAPI,
      [Call_provider ''corp-google'', Call_OAuth2 example_Provider,
       Call_validateFlow ''fedcba9876543210'', Call_alreadyAuthenticated ''login-flow'',
       Call_ClaimsFromIDToken example_Provider ''tok'',
       Call_FindByCredentialsIdentifier CredentialsTypeOIDC ''corp-google:tok'',
       Call_handleError ''fedcba9876543210'' ''corp-google'' None UserNotFoundError]) \<and>
   fst (Login example_Strategy (example_Request ''corp-google,tok'') (example_LoginFlow TypeAPI) []) \<noteq>
     (None, None)"
  by code_simp

text \<open>
  Claim C2, amended. An API flow that reaches the native branch (as in C7), with a
  provider that verifies ID tokens, a supplied ID token from which the claims are
  extracted, and an identity store that reports no row for the identifier of provider id
  and subject: \<^verbatim>\<open>Login\<close> does not pivot into registration. It passes the
  user-not-found error through the error annotation and returns it with no identity;
  after the token verification and the lookup nothing else is called, in particular no
  registration flow is created and the registration counterpart is not invoked.
\<close>

theorem Login_native_unknown_identity:
  assumes api: "lf_Type f = TypeAPI"
    and aal: "CheckAAL s f AuthenticatorAssuranceLevel1 = None"
    and method_allowed: "MethodEnabledAndAllowedFromRequest s r CredentialsTypeOIDC = None"
    and decoded: "dec_Decode s r = Inr p"
    and pid: "upd_Provider p \<noteq> []"
    and enabled: "MethodEnabledAndAllowed s (SettingsStrategyID s) (SettingsStrategyID s) = None"
    and resolved: "s_provider s r (upd_Provider p) = Inr provider"
    and client: "OAuth2 s provider = Inr c"
    and valid: "validateFlow s r (lf_ID f) = Inr req"
    and not_authenticated: "\<not> alreadyAuthenticated s r req"
    and supported: "ClaimsFromIDToken s provider = Some verify"
    and token: "IDToken p \<noteq> []"
    and extracted: "verify (IDToken p) = Inr claims"
    and unknown: "FindByCredentialsIdentifier s CredentialsTypeOIDC
                    (OIDCUniqueID s (cfg_ID (Config s provider)) (Subject claims)) = Inl ErrNoRows"
  shows "Login s r f identityID =
           ((None, Some UserNotFoundError), f,
            [Call_provider (upd_Provider p), Call_OAuth2 provider, Call_validateFlow (lf_ID f),
             Call_alreadyAuthenticated req,
             Call_ClaimsFromIDToken provider (IDToken p),
             Call_FindByCredentialsIdentifier CredentialsTypeOIDC
               (OIDCUniqueID s (cfg_ID (Config s provider)) (Subject claims)),
             Call_handleError (lf_ID f) (upd_Provider p) None UserNotFoundError])"
proof -
  have other: "lf_Type f \<noteq> TypeBrowser" using api TypeAPI_not_TypeBrowser by simp
  have "Login s r f identityID =
          Login_api s r f p (IDToken p) provider
            [Call_provider (upd_Provider p), Call_OAuth2 provider, Call_validateFlow (lf_ID f),
             Call_alreadyAuthenticated req]"
    using Login_dispatch [OF aal Login_decode_other [OF other method_allowed decoded] pid enabled resolved
        client valid not_authenticated]
    by (simp add: api TypeAPI_not_TypeBrowser)
  then show ?thesis
    using supported token extracted unknown
    by (simp add: Login_api_def Let_def handleError_def return_nil_error_def errors_Is_def)
qed

theorem Login_native_unknown_identity_witness:
  "Login example_Strategy (example_Request ''corp-google,id-token-of-sub-7'') (example_LoginFlow TypeAPI) [] =
     ((None, Some UserNotFoundError), example_LoginFlow TypeAPI,
      [Call_provider ''corp-google'', Call_OAuth2 example_Provider,
       Call_validateFlow ''fedcba9876543210'', Call_alreadyAuthenticated ''login-flow'',
       Call_ClaimsFromIDToken example_Provider ''id-token-of-sub-7'',
       Call_FindByCredentialsIdentifier CredentialsTypeOIDC ''corp-google:id-token-of-sub-7'',
       Call_handleError ''fedcba9876543210'' ''corp-google'' None UserNotFoundError])"
proof -
  let ?s = example_Strategy and ?f = "example_LoginFlow TypeAPI"
    and ?r = "example_Request ''corp-google,id-token-of-sub-7''"
    and ?p = "example_payload ''corp-google,id-token-of-sub-7''"
  let ?verify = "\<lambda>tok. Inr \<lparr>Subject = tok, claims_Issuer = ''https://accounts.google.com''\<rparr> :: error + Claims"
  have api: "lf_Type ?f = TypeAPI" by (simp add: example_defs)
  have aal: "CheckAAL ?s ?f AuthenticatorAssuranceLevel1 = None" by (simp add: example_defs)
  have method_allowed: "MethodEnabledAndAllowedFromRequest ?s ?r CredentialsTypeOIDC = None"
    by (simp add: example_defs)
  have decoded: "dec_Decode ?s ?r = Inr ?p" by (simp add: example_defs)
  have pid: "upd_Provider ?p \<noteq> []" by (simp add: example_defs)
  have enabled: "MethodEnabledAndAllowed ?s (SettingsStrategyID ?s) (SettingsStrategyID ?s) = None"
    by (simp add: example_defs)
  have resolved: "s_provider ?s ?r (upd_Provider ?p) = Inr example_Provider"
    by (simp add: example_defs ConfigurationCollection_Provider_def providers_def)
  have client: "OAuth2 ?s example_Provider = Inr ''oauth2-client''" by (simp add: example_defs)
  have valid: "validateFlow ?s ?r (lf_ID ?f) = Inr ''login-flow''" by (simp add: example_defs)
  have not_authenticated: "\<not> alreadyAuthenticated ?s ?r ''login-flow''" by (simp add: example_defs)
  have supported: "ClaimsFromIDToken ?s example_Provider = Some ?verify" by (simp add: example_defs)
  have token: "IDToken ?p \<noteq> []" by (simp add: example_defs)
  have extracted: "?verify (IDToken ?p) =
      Inr \<lparr>Subject = ''id-token-of-sub-7'', claims_Issuer = ''https://accounts.google.com''\<rparr>"
    by (simp add: example_defs)
  have unknown: "FindByCredentialsIdentifier ?s CredentialsTypeOIDC
      (OIDCUniqueID ?s (cfg_ID (Config ?s example_Provider))
         (Subject \<lparr>Subject = ''id-token-of-sub-7'', claims_Issuer = ''https://accounts.google.com''\<rparr>)) =
      Inl ErrNoRows"
    by (simp add: example_defs)
  from Login_native_unknown_identity [OF api aal method_allowed decoded pid enabled resolved client valid
      not_authenticated supported token extracted unknown, of "[]"]
  show ?thesis by (simp add: example_defs)
qed

subsection \<open>Callback processing for an unknown identity\<close>

lemma return_to_after_rewrite:
  "Values_lookup (URL_Query (u\<lparr>RawQuery := Values_Encode (Values_Set v ''return_to'' x)\<rparr>)) ''return_to'' = [x]"
  by (simp add: URL_Query_def Values_lookup_ParseQuery_Encode Values_lookup_Set)

text \<open>
  Claim C1, as stated, fails. The identity store reports no row for the identifier of
  \<^verbatim>\<open>corp-google\<close> and the asserted subject, and the registration handler returns an
  error instead of a new flow: \<^verbatim>\<open>processLogin\<close> annotates and returns that error,
  and the registration counterpart is not called.
\<close>

theorem processLogin_pivot_counterexample:
  "FindByCredentialsIdentifier example_no_registration_Strategy CredentialsTypeOIDC ''corp-google:sub-123'' =
     Inl ErrNoRows \<and>
   processLogin example_no_registration_Strategy (example_Request ''corp-google,'')
     (example_LoginFlow TypeBrowser) ''token'' example_Claims example_Provider None =
     ((None, Some (CollaboratorError ''registration is disabled'')),
      \<lparr>req_URL = example_URL\<lparr>RawQuery := ''code=abc&return_to=https%3A%2F%2Fapp.example%2Fhome&state=xyz''\<rparr>,
       req_Body = ''corp-google,''\<rparr>,
      [Call_FindByCredentialsIdentifier CredentialsTypeOIDC ''corp-google:sub-123'',
       Call_NewRegistrationFlow
         \<lparr>req_URL = example_URL\<lparr>RawQuery := ''code=abc&return_to=https%3A%2F%2Fapp.example%2Fhome&state=xyz''\<rparr>,
          req_Body = ''corp-google,''\<rparr>
         TypeBrowser [WithFlowReturnTo ''https://app.example/home''],
       Call_handleError ''fedcba9876543210'' ''corp-google'' None
         (CollaboratorError ''registration is disabled'')])"
  by code_simp

text \<open>
  Claim C1, amended. The identity store reports no row for the OIDC identifier of the
  asserted provider id and subject. Then \<^verbatim>\<open>processLogin\<close>
  \<^item> rewrites the query of the request URL so that \<^verbatim>\<open>return_to\<close> has the flow's
    \<^verbatim>\<open>ReturnTo\<close> as its only value, and asks the registration handler for a new
    browser flow with that request, with the option \<^verbatim>\<open>WithFlowReturnTo\<close> of the
    flow's \<^verbatim>\<open>ReturnTo\<close> when that is non-empty and with no option otherwise;
  \<^item> if the handler returns an error, annotates and returns it, and calls nothing else;
  \<^item> if the handler has created the flow, takes the return-to parameter of the login
    flow's request URL over to the request URL of the new flow; if that fails,
    annotates and returns the error, and calls nothing else;
  \<^item> if that has given the new request URL, calls the registration counterpart with
    the rewritten request, the new flow with that request URL, and the token, claims,
    provider and container it was itself called with;
  \<^item> if the registration counterpart returns no error, returns no flow and no error;
    if it returns an error, returns the new flow and that error.
\<close>

theorem processLogin_pivots_to_registration:
  assumes unknown: "FindByCredentialsIdentifier s CredentialsTypeOIDC
                      (OIDCUniqueID s (cfg_ID (Config s provider)) (Subject claims)) = Inl ErrNoRows"
  shows "\<exists>opts r' calls.
           opts = (if lf_ReturnTo a = [] then [] else [WithFlowReturnTo (lf_ReturnTo a)]) \<and>
           r' = r\<lparr>req_URL := (req_URL r)\<lparr>RawQuery :=
                   Values_Encode (Values_Set (URL_Query (req_URL r)) ''return_to'' (lf_ReturnTo a))\<rparr>\<rparr> \<and>
           Values_lookup (URL_Query (req_URL r')) ''return_to'' = [lf_ReturnTo a] \<and>
           calls = [Call_FindByCredentialsIdentifier CredentialsTypeOIDC
                      (OIDCUniqueID s (cfg_ID (Config s provider)) (Subject claims)),
                    Call_NewRegistrationFlow r' TypeBrowser opts] \<and>
           processLogin s r a token claims provider container =
             (case NewRegistrationFlow s r' TypeBrowser opts of
                Inl err \<Rightarrow>
                  ((None, Some err), r',
                   calls @ [Call_handleError (lf_ID a) (cfg_ID (Config s provider)) None err])
              | Inr aa \<Rightarrow>
                 (case TakeOverReturnToParameter s (lf_RequestURL a) (rf_RequestURL aa) of
                    Inl err \<Rightarrow>
                      ((None, Some err), r',
                       calls @ [Call_handleError (lf_ID a) (cfg_ID (Config s provider)) None err])
                  | Inr request_url \<Rightarrow>
                     (case processRegistration s r' (aa\<lparr>rf_RequestURL := request_url\<rparr>) token claims
                             provider container of
                        None \<Rightarrow>
                          ((None, None), r',
                           calls @ [Call_processRegistration r' (aa\<lparr>rf_RequestURL := request_url\<rparr>)
                                      token claims provider container])
                      | Some err \<Rightarrow>
                          ((Some (aa\<lparr>rf_RequestURL := request_url\<rparr>), Some err), r',
                           calls @ [Call_processRegistration r' (aa\<lparr>rf_RequestURL := request_url\<rparr>)
                                      token claims provider container]))))"
  using unknown
  by (simp add: processLogin_def Let_def errors_Is_def return_nil_error_def handleError_def
        return_to_after_rewrite
      split: sum.split option.split)

theorem processLogin_pivots_to_registration_witness:
  "processLogin example_Strategy (example_Request ''corp-google,'') (example_LoginFlow TypeBrowser)
     ''token'' example_Claims example_Provider None =
     ((None, None),
      \<lparr>req_URL = example_URL\<lparr>RawQuery := ''code=abc&return_to=https%3A%2F%2Fapp.example%2Fhome&state=xyz''\<rparr>,
       req_Body = ''corp-google,''\<rparr>,
      [Call_FindByCredentialsIdentifier CredentialsTypeOIDC ''corp-google:sub-123'',
       Call_NewRegistrationFlow
         \<lparr>req_URL = example_URL\<lparr>RawQuery := ''code=abc&return_to=https%3A%2F%2Fapp.example%2Fhome&state=xyz''\<rparr>,
          req_Body = ''corp-google,''\<rparr>
         TypeBrowser [WithFlowReturnTo ''https://app.example/home''],
       Call_processRegistration
         \<lparr>req_URL = example_URL\<lparr>RawQuery := ''code=abc&return_to=https%3A%2F%2Fapp.example%2Fhome&state=xyz''\<rparr>,
          req_Body = ''corp-google,''\<rparr>
         \<lparr>rf_ID = ''0123456789abcdef'', rf_Type = TypeBrowser, rf_ReturnTo = ''https://app.example/home'',
          rf_RequestURL = ''https://id.example/self-service/registration/browser''\<rparr>
         ''token'' example_Claims example_Provider None])"
proof -
  let ?s = example_Strategy and ?r = "example_Request ''corp-google,''"
    and ?a = "example_LoginFlow TypeBrowser"
  have unknown: "FindByCredentialsIdentifier ?s CredentialsTypeOIDC
      (OIDCUniqueID ?s (cfg_ID (Config ?s example_Provider)) (Subject example_Claims)) = Inl ErrNoRows"
    by (simp add: example_Strategy_def)
  have ids: "OIDCUniqueID ?s (cfg_ID (Config ?s example_Provider)) (Subject example_Claims) = ''corp-google:sub-123''"
    "lf_ReturnTo ?a = ''https://app.example/home''"
    by (simp_all add: example_Strategy_def example_Provider_def example_Configuration_def
          example_Claims_def example_LoginFlow_def)
  have query: "Values_Encode (Values_Set (URL_Query (req_URL ?r)) ''return_to'' ''https://app.example/home'') =
      ''code=abc&return_to=https%3A%2F%2Fapp.example%2Fhome&state=xyz''"
    by code_simp
  have request: "?r\<lparr>req_URL := (req_URL ?r)\<lparr>RawQuery := ''code=abc&return_to=https%3A%2F%2Fapp.example%2Fhome&state=xyz''\<rparr>\<rparr> =
      \<lparr>req_URL = example_URL\<lparr>RawQuery := ''code=abc&return_to=https%3A%2F%2Fapp.example%2Fhome&state=xyz''\<rparr>,
       req_Body = ''corp-google,''\<rparr>"
    by (simp add: example_Request_def)
  have created: "NewRegistrationFlow ?s q TypeBrowser [WithFlowReturnTo ''https://app.example/home''] =
      Inr \<lparr>rf_ID = ''0123456789abcdef'', rf_Type = TypeBrowser, rf_ReturnTo = ''https://app.example/home'',
           rf_RequestURL = ''https://id.example/self-service/registration/browser''\<rparr>" for q
    by (simp add: example_Strategy_def)
  have taken: "TakeOverReturnToParameter ?s from to = Inr to" for "from" to
    by (simp add: example_Strategy_def)
  have registered: "processRegistration ?s q aa tok cl pr co = None" for q aa tok cl pr co
    by (simp add: example_Strategy_def)
  from processLogin_pivots_to_registration [OF unknown, of ?a ?r "''token''" None]
  show ?thesis
    by (simp add: ids query request created taken registered)
qed

subsection \<open>Callback processing for a known identity\<close>

lemma processLogin_loop_no_match:
  assumes "\<forall>e \<in> set cs. \<not> (cop_Subject e = Subject claims \<and> cop_Provider e = provider_id)"
  shows "processLogin_loop s r a claims provider_id i sess tr cs =
           return_nil_error r
             (handleError tr a provider_id None (credentials_mismatch_error provider_id (Subject claims)))"
  using assms by (induction cs) auto

lemma processLogin_loop_match:
  assumes "\<exists>e \<in> set cs. cop_Subject e = Subject claims \<and> cop_Provider e = provider_id"
  shows "processLogin_loop s r a claims provider_id i sess tr cs =
           (case PostLoginHook s r OpenIDConnectGroup a i sess of
              Some err \<Rightarrow>
                return_nil_error r
                  (handleError (tr @ [Call_PostLoginHook r OpenIDConnectGroup a i sess]) a provider_id None err)
            | None \<Rightarrow> ((None, None), r, tr @ [Call_PostLoginHook r OpenIDConnectGroup a i sess]))"
  using assms by (induction cs) (auto simp: Let_def)

lemma processLogin_found:
  assumes "FindByCredentialsIdentifier s CredentialsTypeOIDC
             (OIDCUniqueID s (cfg_ID (Config s provider)) (Subject claims)) = Inr (i, c)"
    and "json_Decode_CredentialsOIDC s (cred_Config c) = Inr oc"
  shows "processLogin s r a token claims provider container =
           processLogin_loop s r a claims (cfg_ID (Config s provider)) i
             (CompletedLoginFor NewInactiveSession CredentialsTypeOIDC AuthenticatorAssuranceLevel1)
             [Call_FindByCredentialsIdentifier CredentialsTypeOIDC
                (OIDCUniqueID s (cfg_ID (Config s provider)) (Subject claims))]
             (co_Providers oc)"
  using assms by (simp add: processLogin_def Let_def)

lemma credentials_mismatch_error_class:
  "\<exists>e. credentials_mismatch_error provider_id subject = Herodot e \<and>
        CodeField e = 500 \<and> StatusField e = ''Internal Server Error'' \<and>
        ReasonField e = ''Unable to find matching OpenID Connect Credentials.''"
  by (simp add: credentials_mismatch_error_def WithStack_def WithDebug_def WithReason_def
        ErrInternalServerError_def)

text \<open>
  Claim C3. The identity store finds an identity for the OIDC identifier, its credential
  configuration decodes, and no linked provider entry has both the asserted provider id
  and the asserted subject: \<^verbatim>\<open>processLogin\<close> returns no flow and the
  credentials-mismatch error, after the error annotation step has seen that same error
  and nothing else has been called. The error is a herodot error of the
  internal-server-error class (code 500); it is neither the user-not-found error nor a
  herodot error of the not-found class (code 404).
\<close>

theorem processLogin_credentials_mismatch:
  assumes found: "FindByCredentialsIdentifier s CredentialsTypeOIDC
             (OIDCUniqueID s (cfg_ID (Config s provider)) (Subject claims)) = Inr (i, c)"
    and decoded: "json_Decode_CredentialsOIDC s (cred_Config c) = Inr oc"
    and no_match: "\<forall>e \<in> set (co_Providers oc).
             \<not> (cop_Subject e = Subject claims \<and> cop_Provider e = cfg_ID (Config s provider))"
  shows "\<exists>e. processLogin s r a token claims provider container =
               ((None, Some (Herodot e)), r,
                [Call_FindByCredentialsIdentifier CredentialsTypeOIDC
                   (OIDCUniqueID s (cfg_ID (Config s provider)) (Subject claims)),
                 Call_handleError (lf_ID a) (cfg_ID (Config s provider)) None (Herodot e)]) \<and>
              Herodot e = credentials_mismatch_error (cfg_ID (Config s provider)) (Subject claims) \<and>
              CodeField e = 500 \<and> StatusField e = ''Internal Server Error'' \<and>
              ReasonField e = ''Unable to find matching OpenID Connect Credentials.'' \<and>
              CodeField e \<noteq> CodeField ErrNotFound \<and> Herodot e \<noteq> UserNotFoundError"
proof -
  obtain e where e: "credentials_mismatch_error (cfg_ID (Config s provider)) (Subject claims) = Herodot e"
    and cls: "CodeField e = 500" "StatusField e = ''Internal Server Error''"
      "ReasonField e = ''Unable to find matching OpenID Connect Credentials.''"
    using credentials_mismatch_error_class by blast
  have "processLogin s r a token claims provider container =
          return_nil_error r
            (handleError [Call_FindByCredentialsIdentifier CredentialsTypeOIDC
                (OIDCUniqueID s (cfg_ID (Config s provider)) (Subject claims))]
               a (cfg_ID (Config s provider)) None
               (credentials_mismatch_error (cfg_ID (Config s provider)) (Subject claims)))"
    by (simp only: processLogin_found [OF found decoded] processLogin_loop_no_match [OF no_match])
  then have "processLogin s r a token claims provider container =
               ((None, Some (Herodot e)), r,
                [Call_FindByCredentialsIdentifier CredentialsTypeOIDC
                   (OIDCUniqueID s (cfg_ID (Config s provider)) (Subject claims)),
                 Call_handleError (lf_ID a) (cfg_ID (Config s provider)) None (Herodot e)])"
    by (simp add: e return_nil_error_def handleError_def)
  with e cls show ?thesis by (simp add: ErrNotFound_def)
qed

theorem processLogin_credentials_mismatch_witness:
  "\<exists>e. processLogin (example_known_Strategy ''sub-999'') (example_Request ''corp-google,'')
          (example_LoginFlow TypeBrowser) ''token'' example_Claims example_Provider None =
          ((None, Some (Herodot e)), example_Request ''corp-google,'',
           [Call_FindByCredentialsIdentifier CredentialsTypeOIDC ''corp-google:sub-123'',
            Call_handleError ''fedcba9876543210'' ''corp-google'' None (Herodot e)]) \<and>
        CodeField e = 500"
proof -
  let ?s = "example_known_Strategy ''sub-999''"
  have found: "FindByCredentialsIdentifier ?s CredentialsTypeOIDC
      (OIDCUniqueID ?s (cfg_ID (Config ?s example_Provider)) (Subject example_Claims)) =
      Inr (example_Identity, \<lparr>cred_Type = CredentialsTypeOIDC, cred_Config = ''sub-999''\<rparr>)"
    by (simp add: example_known_Strategy_def example_Strategy_def)
  have decoded: "json_Decode_CredentialsOIDC ?s (cred_Config \<lparr>cred_Type = CredentialsTypeOIDC, cred_Config = ''sub-999''\<rparr>) =
      Inr \<lparr>co_Providers = [\<lparr>cop_Subject = ''sub-999'', cop_Provider = ''corp-google''\<rparr>]\<rparr>"
    by (simp add: example_known_Strategy_def example_Strategy_def)
  have no_match: "\<forall>e \<in> set (co_Providers \<lparr>co_Providers = [\<lparr>cop_Subject = ''sub-999'', cop_Provider = ''corp-google''\<rparr>]\<rparr>).
      \<not> (cop_Subject e = Subject example_Claims \<and> cop_Provider e = cfg_ID (Config ?s example_Provider))"
    by (simp add: example_Claims_def)
  have ids: "cfg_ID (Config ?s example_Provider) = ''corp-google''" "Subject example_Claims = ''sub-123''"
    "OIDCUniqueID ?s ''corp-google'' ''sub-123'' = ''corp-google:sub-123''"
    "lf_ID (example_LoginFlow TypeBrowser) = ''fedcba9876543210''"
    by (simp_all add: example_known_Strategy_def example_Strategy_def example_Provider_def
          example_Configuration_def example_Claims_def example_LoginFlow_def)
  from processLogin_credentials_mismatch [OF found decoded no_match,
      of "example_Request ''corp-google,''" "example_LoginFlow TypeBrowser" "''token''" None]
  show ?thesis unfolding ids by blast
qed

text \<open>
  Claim C4. The identity store finds an identity for the OIDC identifier, its credential
  configuration decodes, and a linked provider entry has the asserted provider id and
  subject: the session that \<^verbatim>\<open>processLogin\<close> builds is inactive and records one
  completed method, this strategy at AAL1; the post-login hook is called with the
  request, the OIDC group, the login flow, the identity that was found and that session;
  and when the hook returns no error, \<^verbatim>\<open>processLogin\<close> returns no flow and no error,
  having called nothing but the identity store and the hook and leaving the request as it
  was. When the hook fails, its error is annotated and returned.
\<close>

theorem processLogin_linked_identity:
  assumes found: "FindByCredentialsIdentifier s CredentialsTypeOIDC
             (OIDCUniqueID s (cfg_ID (Config s provider)) (Subject claims)) = Inr (i, c)"
    and decoded: "json_Decode_CredentialsOIDC s (cred_Config c) = Inr oc"
    and match: "\<exists>e \<in> set (co_Providers oc).
             cop_Subject e = Subject claims \<and> cop_Provider e = cfg_ID (Config s provider)"
  shows "\<exists>sess calls.
           sess = CompletedLoginFor NewInactiveSession CredentialsTypeOIDC AuthenticatorAssuranceLevel1 \<and>
           sess_Active sess = False \<and>
           sess_AMR sess = [(CredentialsTypeOIDC, AuthenticatorAssuranceLevel1)] \<and>
           calls = [Call_FindByCredentialsIdentifier CredentialsTypeOIDC
                      (OIDCUniqueID s (cfg_ID (Config s provider)) (Subject claims)),
                    Call_PostLoginHook r OpenIDConnectGroup a i sess] \<and>
           processLogin s r a token claims provider container =
             (case PostLoginHook s r OpenIDConnectGroup a i sess of
                None \<Rightarrow> ((None, None), r, calls)
              | Some err \<Rightarrow>
                  ((None, Some err), r,
                   calls @ [Call_handleError (lf_ID a) (cfg_ID (Config s provider)) None err]))"
  by (simp add: processLogin_found [OF found decoded] processLogin_loop_match [OF match]
        NewInactiveSession_def CompletedLoginFor_def return_nil_error_def handleError_def
      split: option.split)

theorem processLogin_linked_identity_witness:
  "processLogin (example_known_Strategy ''sub-123'') (example_Request ''corp-google,'')
     (example_LoginFlow TypeBrowser) ''token'' example_Claims example_Provider None =
     ((None, None), example_Request ''corp-google,'',
      [Call_FindByCredentialsIdentifier CredentialsTypeOIDC ''corp-google:sub-123'',
       Call_PostLoginHook (example_Request ''corp-google,'') OpenIDConnectGroup (example_LoginFlow TypeBrowser)
         example_Identity
         \<lparr>sess_Active = False, sess_AMR = [(CredentialsTypeOIDC, AuthenticatorAssuranceLevel1)]\<rparr>])"
proof -
  let ?s = "example_known_Strategy ''sub-123''"
  have found: "FindByCredentialsIdentifier ?s CredentialsTypeOIDC
      (OIDCUniqueID ?s (cfg_ID (Config ?s example_Provider)) (Subject example_Claims)) =
      Inr (example_Identity, \<lparr>cred_Type = CredentialsTypeOIDC, cred_Config = ''sub-123''\<rparr>)"
    by (simp add: example_known_Strategy_def example_Strategy_def)
  have decoded: "json_Decode_CredentialsOIDC ?s (cred_Config \<lparr>cred_Type = CredentialsTypeOIDC, cred_Config = ''sub-123''\<rparr>) =
      Inr \<lparr>co_Providers = [\<lparr>cop_Subject = ''sub-123'', cop_Provider = ''corp-google''\<rparr>]\<rparr>"
    by (simp add: example_known_Strategy_def example_Strategy_def)
  have ids: "cfg_ID (Config ?s example_Provider) = ''corp-google''" "Subject example_Claims = ''sub-123''"
    "OIDCUniqueID ?s ''corp-google'' ''sub-123'' = ''corp-google:sub-123''"
    by (simp_all add: example_known_Strategy_def example_Strategy_def example_Provider_def
          example_Configuration_def example_Claims_def)
  have match: "\<exists>e \<in> set (co_Providers \<lparr>co_Providers = [\<lparr>cop_Subject = ''sub-123'', cop_Provider = ''corp-google''\<rparr>]\<rparr>).
      cop_Subject e = Subject example_Claims \<and> cop_Provider e = cfg_ID (Config ?s example_Provider)"
    by (simp add: ids)
  have hook: "PostLoginHook ?s r g a i sess = None" for r g a i sess
    by (simp add: example_known_Strategy_def example_Strategy_def)
  from processLogin_linked_identity [OF found decoded match,
      of "example_Request ''corp-google,''" "example_LoginFlow TypeBrowser" "''token''" None]
  show ?thesis
    by (simp add: ids hook NewInactiveSession_def CompletedLoginFor_def)
qed

subsection \<open>Provider resolution\<close>

lemma providers_Config:
  assumes "(kind, f) \<in> set (providers :: (string \<times> (Configuration \<Rightarrow> 'reg \<Rightarrow> 'reg Provider)) list)"
  shows "Provider_Config (f p reg) = p"
  using assms unfolding providers_def by auto

lemma providers_lookup_Config:
  assumes "map_of (providers :: (string \<times> (Configuration \<Rightarrow> 'reg \<Rightarrow> 'reg Provider)) list) kind = Some f"
  shows "Provider_Config (f p reg) = p"
  using providers_Config [OF map_of_SomeD [OF assms]] .

lemma providers_keys:
  "map fst (providers :: (string \<times> (Configuration \<Rightarrow> 'reg \<Rightarrow> 'reg Provider)) list) =
     [''generic'', ''google'', ''github'', ''github-app'', ''gitlab'', ''microsoft'',
      ''discord'', ''slack'', ''facebook'', ''auth0'', ''vk'', ''yandex'', ''apple'',
      ''spotify'', ''netid'', ''dingtalk'', ''linkedin'', ''patreon'']"
  by (simp add: providers_def)

lemma Provider_loop_find:
  "Provider_loop range_order ps id' reg =
     (case find (\<lambda>p. cfg_ID p = id') ps of
        None \<Rightarrow> Inl (provider_unknown_error id')
      | Some p \<Rightarrow>
         (case map_of providers (cfg_Provider p) of
            None \<Rightarrow> Inl (Errorf (provider_unsupported_message (cfg_Provider p)
                        (range_order (map fst (providers :: (string \<times> (Configuration \<Rightarrow> 'reg \<Rightarrow> 'reg Provider)) list)))))
          | Some f \<Rightarrow> Inr (f p (reg :: 'reg))))"
  by (induction ps) (simp_all add: Let_def split: option.split)

lemma find_unique_id:
  assumes "distinct (map cfg_ID ps)" and "p \<in> set ps" and "cfg_ID p = id'"
  shows "find (\<lambda>p. cfg_ID p = id') ps = Some p"
  using assms by (induction ps) (auto simp: image_iff)

lemma Provider_loop_unknown_iff:
  "Provider_loop range_order ps id' reg = Inl (provider_unknown_error id')
     \<longleftrightarrow> (\<forall>p \<in> set ps. cfg_ID p \<noteq> id')"
  by (induction ps)
    (auto simp: Let_def provider_unknown_error_def WithStack_def split: option.split)

text \<open>
  Claim C6. Resolving a provider id in a configuration collection, whatever order the
  runtime ranges over the table in:
  \<^item> the result is the \<^verbatim>\<open>ProviderUnknown\<close> error, a herodot error of the not-found
    class (code 404), exactly when no configuration of the collection has the id;
  \<^item> when the configuration the loop finds for the id has a kind without constructor,
    the result is the error with the message
    \<^verbatim>\<open>provider type KIND is not supported, supported are: [NAMES]\<close>, where the names,
    separated by spaces, are the keys of the constructor table, each of the eighteen
    exactly once, in the order of the range;
  \<^item> otherwise the result is the provider that the constructor registered for the kind
    builds from that configuration, and the provider's \<^verbatim>\<open>Config()\<close> is the
    configuration.
  The configuration that decides is the one the loop finds first; when the ids of the
  collection are unique, as its invariant says, that is the configuration with the id.
\<close>

theorem Provider_resolution:
  fixes reg :: 'reg and c :: ConfigurationCollection
  assumes order: "\<And>ks. mset (range_order ks) = mset ks"
  shows "(ConfigurationCollection_Provider range_order c id' reg = Inl (provider_unknown_error id')
            \<longleftrightarrow> (\<forall>p \<in> set (cc_Providers c). cfg_ID p \<noteq> id')) \<and>
         (\<exists>e. provider_unknown_error id' = Herodot e \<and> CodeField e = 404 \<and> StatusField e = ''Not Found'') \<and>
         (distinct (map cfg_ID (cc_Providers c)) \<longrightarrow>
            (\<forall>p \<in> set (cc_Providers c). cfg_ID p = id' \<longrightarrow>
               find (\<lambda>p. cfg_ID p = id') (cc_Providers c) = Some p)) \<and>
         (\<forall>p. find (\<lambda>p. cfg_ID p = id') (cc_Providers c) = Some p \<longrightarrow>
            (case map_of (providers :: (string \<times> (Configuration \<Rightarrow> 'reg \<Rightarrow> 'reg Provider)) list) (cfg_Provider p) of
               None \<Rightarrow>
                 (\<exists>names.
                    ConfigurationCollection_Provider range_order c id' reg =
                      Inl (Errorf (''provider type '' @ cfg_Provider p @
                                   '' is not supported, supported are: ['' @ Join names '' '' @ '']'')) \<and>
                    mset names =
                      mset [''generic'', ''google'', ''github'', ''github-app'', ''gitlab'', ''microsoft'',
                            ''discord'', ''slack'', ''facebook'', ''auth0'', ''vk'', ''yandex'', ''apple'',
                            ''spotify'', ''netid'', ''dingtalk'', ''linkedin'', ''patreon''] \<and>
                    mset names = mset (map fst (providers :: (string \<times> (Configuration \<Rightarrow> 'reg \<Rightarrow> 'reg Provider)) list)) \<and>
                    names = range_order (map fst (providers :: (string \<times> (Configuration \<Rightarrow> 'reg \<Rightarrow> 'reg Provider)) list)))
             | Some f \<Rightarrow>
                 ConfigurationCollection_Provider range_order c id' reg = Inr (f p reg) \<and>
                 Provider_Config (f p reg) = p))"
proof (intro conjI allI impI ballI)
  fix p
  assume "distinct (map cfg_ID (cc_Providers c))" "p \<in> set (cc_Providers c)" "cfg_ID p = id'"
  then show "find (\<lambda>p. cfg_ID p = id') (cc_Providers c) = Some p" by (rule find_unique_id)
next
  show "ConfigurationCollection_Provider range_order c id' reg = Inl (provider_unknown_error id')
          \<longleftrightarrow> (\<forall>p \<in> set (cc_Providers c). cfg_ID p \<noteq> id')"
    by (simp add: ConfigurationCollection_Provider_def Provider_loop_unknown_iff)
  show "\<exists>e. provider_unknown_error id' = Herodot e \<and> CodeField e = 404 \<and> StatusField e = ''Not Found''"
    by (simp add: provider_unknown_error_def WithStack_def WithReason_def ErrNotFound_def)
next
  fix p
  assume found: "find (\<lambda>p. cfg_ID p = id') (cc_Providers c) = Some p"
  let ?table = "providers :: (string \<times> (Configuration \<Rightarrow> 'reg \<Rightarrow> 'reg Provider)) list"
  let ?names = "range_order (map fst ?table)"
  show "case map_of ?table (cfg_Provider p) of
          None \<Rightarrow>
            (\<exists>names.
               ConfigurationCollection_Provider range_order c id' reg =
                 Inl (Errorf (''provider type '' @ cfg_Provider p @
                              '' is not supported, supported are: ['' @ Join names '' '' @ '']'')) \<and>
               mset names =
                 mset [''generic'', ''google'', ''github'', ''github-app'', ''gitlab'', ''microsoft'',
                       ''discord'', ''slack'', ''facebook'', ''auth0'', ''vk'', ''yandex'', ''apple'',
                       ''spotify'', ''netid'', ''dingtalk'', ''linkedin'', ''patreon''] \<and>
               mset names = mset (map fst ?table) \<and>
               names = range_order (map fst ?table))
        | Some f \<Rightarrow>
            ConfigurationCollection_Provider range_order c id' reg = Inr (f p reg) \<and>
            Provider_Config (f p reg) = p"
  proof (cases "map_of ?table (cfg_Provider p)")
    case None
    have "ConfigurationCollection_Provider range_order c id' reg =
            Inl (Errorf (provider_unsupported_message (cfg_Provider p) ?names))"
      using found None by (simp add: ConfigurationCollection_Provider_def Provider_loop_find)
    then have res: "ConfigurationCollection_Provider range_order c id' reg =
            Inl (Errorf (''provider type '' @ cfg_Provider p @
                         '' is not supported, supported are: ['' @ Join ?names '' '' @ '']''))"
      by (simp add: provider_unsupported_message_def fmt_strings_def)
    have perm: "mset ?names = mset (map fst ?table)" by (rule order)
    have keys: "mset ?names =
                  mset [''generic'', ''google'', ''github'', ''github-app'', ''gitlab'', ''microsoft'',
                        ''discord'', ''slack'', ''facebook'', ''auth0'', ''vk'', ''yandex'', ''apple'',
                        ''spotify'', ''netid'', ''dingtalk'', ''linkedin'', ''patreon'']"
      using perm unfolding providers_keys .
    from res perm keys None show ?thesis by simp
  next
    case (Some f)
    with found show ?thesis
      by (simp add: ConfigurationCollection_Provider_def Provider_loop_find providers_lookup_Config)
  qed
qed

theorem Provider_resolution_witness:
  "ConfigurationCollection_Provider rev example_Collection ''nobody'' () = Inl (provider_unknown_error ''nobody'') \<and>
   ConfigurationCollection_Provider rev example_Collection ''legacy'' () =
     Inl (Errorf ''provider type myspace is not supported, supported are: [patreon linkedin dingtalk netid spotify apple yandex vk auth0 facebook slack discord microsoft gitlab github-app github google generic]'') \<and>
   ConfigurationCollection_Provider rev example_Collection ''corp-github'' () =
     Inr (NewProviderGitHub (example_Configuration\<lparr>cfg_ID := ''corp-github'', cfg_Provider := ''github''\<rparr>) ())"
proof -
  let ?github = "example_Configuration\<lparr>cfg_ID := ''corp-github'', cfg_Provider := ''github''\<rparr>"
  let ?legacy = "example_Configuration\<lparr>cfg_ID := ''legacy'', cfg_Provider := ''myspace''\<rparr>"
  let ?table = "providers :: (string \<times> (Configuration \<Rightarrow> unit \<Rightarrow> unit Provider)) list"
  have order: "\<And>ks :: string list. mset (rev ks) = mset ks" by simp
  note res = Provider_resolution [of rev, OF order]
  have ids: "\<forall>p \<in> set (cc_Providers example_Collection). cfg_ID p \<noteq> ''nobody''"
    by (simp add: example_Collection_def example_Configuration_def)
  with res [of example_Collection "''nobody''" "()"]
  have unknown: "ConfigurationCollection_Provider rev example_Collection ''nobody'' () =
      Inl (provider_unknown_error ''nobody'')"
    by blast
  have find_legacy: "find (\<lambda>p. cfg_ID p = ''legacy'') (cc_Providers example_Collection) = Some ?legacy"
    by (simp add: example_Collection_def example_Configuration_def)
  have kind_legacy: "map_of ?table (cfg_Provider ?legacy) = None"
    by (simp add: providers_def)
  from res [of example_Collection "''legacy''" "()"] find_legacy
  have "case map_of ?table (cfg_Provider ?legacy) of
          None \<Rightarrow>
            (\<exists>names.
               ConfigurationCollection_Provider rev example_Collection ''legacy'' () =
                 Inl (Errorf (''provider type '' @ cfg_Provider ?legacy @
                              '' is not supported, supported are: ['' @ Join names '' '' @ '']'')) \<and>
               mset names =
                 mset [''generic'', ''google'', ''github'', ''github-app'', ''gitlab'', ''microsoft'',
                       ''discord'', ''slack'', ''facebook'', ''auth0'', ''vk'', ''yandex'', ''apple'',
                       ''spotify'', ''netid'', ''dingtalk'', ''linkedin'', ''patreon''] \<and>
               mset names = mset (map fst ?table) \<and>
               names = rev (map fst ?table))
        | Some f \<Rightarrow>
            ConfigurationCollection_Provider rev example_Collection ''legacy'' () = Inr (f ?legacy ()) \<and>
            Provider_Config (f ?legacy ()) = ?legacy"
    by blast
  with kind_legacy have "ConfigurationCollection_Provider rev example_Collection ''legacy'' () =
      Inl (Errorf (''provider type '' @ cfg_Provider ?legacy @
                   '' is not supported, supported are: ['' @ Join (rev (map fst ?table)) '' '' @ '']''))"
    by simp
  then have unsupported: "ConfigurationCollection_Provider rev example_Collection ''legacy'' () =
     Inl (Errorf ''provider type myspace is not supported, supported are: [patreon linkedin dingtalk netid spotify apple yandex vk auth0 facebook slack discord microsoft gitlab github-app github google generic]'')"
    by (simp add: providers_keys)
  have find_github: "find (\<lambda>p. cfg_ID p = ''corp-github'') (cc_Providers example_Collection) = Some ?github"
    by (simp add: example_Collection_def example_Configuration_def)
  have kind_github: "map_of ?table (cfg_Provider ?github) = Some NewProviderGitHub"
    by (simp add: providers_def)
  from res [of example_Collection "''corp-github''" "()"] find_github
  have "case map_of ?table (cfg_Provider ?github) of
          None \<Rightarrow>
            (\<exists>names.
               ConfigurationCollection_Provider rev example_Collection ''corp-github'' () =
                 Inl (Errorf (''provider type '' @ cfg_Provider ?github @
                              '' is not supported, supported are: ['' @ Join names '' '' @ '']'')) \<and>
               mset names =
                 mset [''generic'', ''google'', ''github'', ''github-app'', ''gitlab'', ''microsoft'',
                       ''discord'', ''slack'', ''facebook'', ''auth0'', ''vk'', ''yandex'', ''apple'',
                       ''spotify'', ''netid'', ''dingtalk'', ''linkedin'', ''patreon''] \<and>
               mset names = mset (map fst ?table) \<and>
               names = rev (map fst ?table))
        | Some f \<Rightarrow>
            ConfigurationCollection_Provider rev example_Collection ''corp-github'' () = Inr (f ?github ()) \<and>
            Provider_Config (f ?github ()) = ?github"
    by blast
  with kind_github have supported: "ConfigurationCollection_Provider rev example_Collection ''corp-github'' () =
     Inr (NewProviderGitHub ?github ())"
    by simp
  from unknown unsupported supported show ?thesis by blast
qed

subsection \<open>No provider id: the strategy is not responsible\<close>

text \<open>
  Claim C8. A login request, browser or not, whose decoded payload has the empty string
  as provider id: \<^verbatim>\<open>Login\<close> returns no identity and the sentinel
  \<^verbatim>\<open>ErrStrategyNotResponsible\<close>; the trace is empty, so no provider was resolved and no
  error was annotated, and the flow is returned as it was passed. That the payload was
  decoded means that the AAL check passed and the decoder of the branch succeeded (on the
  non-browser branch after the method check that precedes it).
\<close>

theorem Login_without_provider_id:
  assumes aal: "CheckAAL s f AuthenticatorAssuranceLevel1 = None"
    and decoded: "(lf_Type f = TypeBrowser \<and> newLinkDecoder s r = Inr p) \<or>
                  (lf_Type f \<noteq> TypeBrowser \<and> MethodEnabledAndAllowedFromRequest s r CredentialsTypeOIDC = None \<and>
                   dec_Decode s r = Inr p)"
    and no_pid: "upd_Provider p = []"
  shows "Login s r f identityID = ((None, Some ErrStrategyNotResponsible), f, [])"
  using assms by (auto simp: Login_def Login_decode_def WithStack_def)

theorem Login_without_provider_id_witness:
  "Login example_Strategy (example_Request '',tok'') (example_LoginFlow TypeBrowser) [] =
     ((None, Some ErrStrategyNotResponsible), example_LoginFlow TypeBrowser, []) \<and>
   Login example_Strategy (example_Request '',tok'') (example_LoginFlow TypeAPI) [] =
     ((None, Some ErrStrategyNotResponsible), example_LoginFlow TypeAPI, [])"
proof
  show "Login example_Strategy (example_Request '',tok'') (example_LoginFlow TypeBrowser) [] =
     ((None, Some ErrStrategyNotResponsible), example_LoginFlow TypeBrowser, [])"
    by (rule Login_without_provider_id [where p = "example_payload '',tok''"])
      (simp_all add: example_Strategy_def example_Request_def example_LoginFlow_def example_payload_def)
  show "Login example_Strategy (example_Request '',tok'') (example_LoginFlow TypeAPI) [] =
     ((None, Some ErrStrategyNotResponsible), example_LoginFlow TypeAPI, [])"
    by (rule Login_without_provider_id [where p = "example_payload '',tok''"])
      (simp_all add: example_Strategy_def example_Request_def example_LoginFlow_def example_payload_def
         TypeAPI_def TypeBrowser_def)
qed

subsection \<open>The verification continuation and the URL it is appended to\<close>

lemma AppendTo_result:
  assumes "src < length h"
  shows "ContinueWithVerificationUI_AppendTo c h src =
           Some (h @ [(h ! src)\<lparr>RawQuery :=
                       Values_Encode (Values_Set (URL_Query (h ! src)) ''flow''
                                        (UUID_String (cwvf_ID (cwv_Flow c))))\<rparr>],
                 length h)"
  using assms
  by (simp add: ContinueWithVerificationUI_AppendTo_def urlx_CopyWithQuery_def urlx_Copy_def Let_def)

lemma flow_after_AppendTo:
  "Values_lookup (URL_Query (u\<lparr>RawQuery := Values_Encode (Values_Set v ''flow'' x)\<rparr>)) ''flow'' = [x]"
  by (simp add: URL_Query_def Values_lookup_ParseQuery_Encode Values_lookup_Set)

lemma Encode_Set_again:
  "Values_Encode (Values_Set (ParseQuery (Values_Encode (Values_Set v key x))) key x) =
     Values_Encode (Values_Set v key x)"
  by (rule Values_Encode_cong) (simp add: Values_lookup_Set Values_lookup_ParseQuery_Encode)

text \<open>
  Claim C9. For a URL behind a valid pointer and two verification continuations with the
  same flow id: appending the second to the result of appending the first gives a URL
  equal to that result, field by field; the values its query has for \<^verbatim>\<open>flow\<close> are
  exactly one, the string form of the flow id. For a set-token continuation,
  \<^verbatim>\<open>AppendTo\<close> leaves the map it is given as it was and returns the nil map, which
  has no parameter and encodes to the empty query.
\<close>

theorem AppendTo_idempotent:
  assumes valid: "src < length h"
    and same_flow: "cwvf_ID (cwv_Flow c') = cwvf_ID (cwv_Flow c)"
  shows "\<exists>h1 p1 h2 p2.
           ContinueWithVerificationUI_AppendTo c h src = Some (h1, p1) \<and>
           ContinueWithVerificationUI_AppendTo c' h1 p1 = Some (h2, p2) \<and>
           h2 ! p2 = h1 ! p1 \<and>
           Values_lookup (URL_Query (h1 ! p1)) ''flow'' = [UUID_String (cwvf_ID (cwv_Flow c))] \<and>
           Values_lookup (URL_Query (h2 ! p2)) ''flow'' = [UUID_String (cwvf_ID (cwv_Flow c))] \<and>
           ContinueWithSetToken_AppendTo t v = (v, []) \<and>
           Values_Encode (snd (ContinueWithSetToken_AppendTo t v)) = []"
proof -
  let ?x = "UUID_String (cwvf_ID (cwv_Flow c))"
  let ?u1 = "(h ! src)\<lparr>RawQuery := Values_Encode (Values_Set (URL_Query (h ! src)) ''flow'' ?x)\<rparr>"
  let ?h1 = "h @ [?u1]"
  let ?u2 = "?u1\<lparr>RawQuery := Values_Encode (Values_Set (URL_Query ?u1) ''flow'' ?x)\<rparr>"
  have first: "ContinueWithVerificationUI_AppendTo c h src = Some (?h1, length h)"
    using valid by (rule AppendTo_result)
  have "ContinueWithVerificationUI_AppendTo c' ?h1 (length h) =
          Some (?h1 @ [(?h1 ! length h)\<lparr>RawQuery :=
                         Values_Encode (Values_Set (URL_Query (?h1 ! length h)) ''flow''
                                          (UUID_String (cwvf_ID (cwv_Flow c'))))\<rparr>],
                length ?h1)"
    by (rule AppendTo_result) simp
  then have second: "ContinueWithVerificationUI_AppendTo c' ?h1 (length h) = Some (?h1 @ [?u2], length ?h1)"
    by (simp add: same_flow)
  have same: "?u2 = ?u1"
    by (simp add: URL_Query_def Encode_Set_again)
  have one: "Values_lookup (URL_Query ?u1) ''flow'' = [?x]"
    by (rule flow_after_AppendTo)
  have cells: "?h1 ! length h = ?u1" "(?h1 @ [?u2]) ! length ?h1 = ?u2"
    by (simp_all add: nth_append)
  have token: "ContinueWithSetToken_AppendTo t v = (v, [])"
    "Values_Encode (snd (ContinueWithSetToken_AppendTo t v)) = []"
    by (simp_all add: ContinueWithSetToken_AppendTo_def Values_Encode_def Values_keys_def)
  show ?thesis
    using first second same one cells token
    by (intro exI [of _ ?h1] exI [of _ "length h"] exI [of _ "?h1 @ [?u2]"] exI [of _ "length ?h1"])
      (simp only: simp_thms)
qed

theorem AppendTo_idempotent_witness:
  "\<exists>h1 p1 h2 p2.
     ContinueWithVerificationUI_AppendTo example_ContinueWith [example_URL] 0 = Some (h1, p1) \<and>
     ContinueWithVerificationUI_AppendTo example_ContinueWith h1 p1 = Some (h2, p2) \<and>
     h2 ! p2 = h1 ! p1 \<and>
     Values_lookup (URL_Query (h2 ! p2)) ''flow'' = [''66656463-6261-3938-3736-353433323130''] \<and>
     ContinueWithSetToken_AppendTo (NewContinueWithSetToken ''token'') (URL_Query example_URL) =
       (URL_Query example_URL, [])"
proof -
  have valid: "0 < length [example_URL]" by simp
  have flow_id: "UUID_String (cwvf_ID (cwv_Flow example_ContinueWith)) = ''66656463-6261-3938-3736-353433323130''"
    by code_simp
  from AppendTo_idempotent [OF valid refl, of example_ContinueWith "NewContinueWithSetToken ''token''"
      "URL_Query example_URL"]
  show ?thesis unfolding flow_id by blast
qed

text \<open>
  Claim C10. For a URL behind a valid pointer, \<^verbatim>\<open>AppendTo\<close> returns a pointer to a
  cell that did not exist before, so it differs from the source pointer; every cell that
  existed before the call, the source URL among them, holds the value it held before;
  the new cell holds the source URL with its query replaced, and the values that query
  has for \<^verbatim>\<open>flow\<close> are the string form of the flow id and nothing else.
\<close>

theorem AppendTo_leaves_source:
  assumes valid: "src < length h"
  shows "\<exists>h' out.
           ContinueWithVerificationUI_AppendTo c h src = Some (h', out) \<and>
           out = length h \<and> out \<noteq> src \<and> length h' = Suc (length h) \<and>
           take (length h) h' = h \<and> h' ! src = h ! src \<and>
           h' ! out = (h ! src)\<lparr>RawQuery :=
                        Values_Encode (Values_Set (URL_Query (h ! src)) ''flow''
                                         (UUID_String (cwvf_ID (cwv_Flow c))))\<rparr> \<and>
           Values_lookup (URL_Query (h' ! out)) ''flow'' = [UUID_String (cwvf_ID (cwv_Flow c))]"
  using valid
  by (simp add: AppendTo_result [OF valid] nth_append flow_after_AppendTo)

theorem AppendTo_leaves_source_witness:
  "ContinueWithVerificationUI_AppendTo example_ContinueWith [example_URL] 0 =
     Some ([example_URL,
            example_URL\<lparr>RawQuery := ''code=abc&flow=66656463-6261-3938-3736-353433323130&state=xyz''\<rparr>],
           1)"
proof -
  have valid: "0 < length [example_URL]" by simp
  have query: "Values_Encode (Values_Set (URL_Query ([example_URL] ! 0)) ''flow''
                  (UUID_String (cwvf_ID (cwv_Flow example_ContinueWith)))) =
               ''code=abc&flow=66656463-6261-3938-3736-353433323130&state=xyz''"
    by code_simp
  from AppendTo_leaves_source [OF valid, of example_ContinueWith]
  obtain h' out where res: "ContinueWithVerificationUI_AppendTo example_ContinueWith [example_URL] 0 = Some (h', out)"
    and out: "out = length [example_URL]" and len: "length h' = Suc (length [example_URL])"
    and old: "take (length [example_URL]) h' = [example_URL]"
    and new: "h' ! out = ([example_URL] ! 0)\<lparr>RawQuery :=
                 Values_Encode (Values_Set (URL_Query ([example_URL] ! 0)) ''flow''
                                  (UUID_String (cwvf_ID (cwv_Flow example_ContinueWith))))\<rparr>"
    by blast
  from len obtain a b where h': "h' = [a, b]"
    by (cases h'; simp) (metis Suc_length_conv length_0_conv)
  from old h' have "a = example_URL" by simp
  moreover from new out h' query
  have "b = example_URL\<lparr>RawQuery := ''code=abc&flow=66656463-6261-3938-3736-353433323130&state=xyz''\<rparr>"
    by simp
  ultimately show ?thesis using res h' out by simp
qed

end
